theory Spec2Isabelle
  imports Main "HOL-Library.Sublist"
begin

section \<open>Text primitives\<close>

text \<open>
  A Python \<open>str\<close> is modelled as a \<open>string\<close> whose characters are read as the code
  points U+0000 .. U+00FF. \<open>is_space\<close> is the character class of \<open>\s\<close> in a \<open>str\<close>
  pattern and of \<open>str.strip()\<close>; \<open>py_lower\<close> is \<open>str.lower()\<close> on one character.
\<close>

definition is_space :: "char \<Rightarrow> bool" where
  "is_space c =
     (let n = (of_char c :: nat)
      in (9 \<le> n \<and> n \<le> 13) \<or> (28 \<le> n \<and> n \<le> 32) \<or> n = 133 \<or> n = 160)"

definition py_lower :: "char \<Rightarrow> char" where
  "py_lower c =
     (let n = (of_char c :: nat)
      in if (65 \<le> n \<and> n \<le> 90) \<or> (192 \<le> n \<and> n \<le> 222 \<and> n \<noteq> 215)
         then char_of (n + 32) else c)"

definition lower :: "string \<Rightarrow> string" where
  "lower s = map py_lower s"

text \<open>\<open>str.strip()\<close>: whitespace removed at both ends.\<close>

definition strip :: "string \<Rightarrow> string" where
  "strip s = rev (dropWhile is_space (rev (dropWhile is_space s)))"

text \<open>A greedy \<open>\s*\<close> followed by a character that is not whitespace: backtracking into
  a shorter run leaves a whitespace character in front of that literal, so only the
  longest run can lead to a match.\<close>

definition skip_spaces :: "string \<Rightarrow> string" where
  "skip_spaces s = dropWhile is_space s"

text \<open>A literal under \<open>re.IGNORECASE\<close>, anchored at the head of the text.\<close>

definition ci_prefix :: "string \<Rightarrow> string \<Rightarrow> bool" where
  "ci_prefix pat s = prefix (lower pat) (lower s)"

text \<open>The text that follows the first occurrence of \<open>pat\<close>.\<close>

fun find_after :: "string \<Rightarrow> string \<Rightarrow> string option" where
  "find_after pat [] = (if pat = [] then Some [] else None)"
| "find_after pat (c # cs) =
     (if prefix pat (c # cs) then Some (drop (length pat) (c # cs))
      else find_after pat cs)"

lemma find_after_length: "find_after pat s = Some r \<Longrightarrow> length r \<le> length s"
  by (induction s) (auto split: if_splits)

section \<open>ResponseParser (src/utils/parsers.py)\<close>

subsection \<open>JSON values\<close>

text \<open>The values \<open>json.loads\<close> produces. A float keeps its sign, mantissa and binary
  exponent; a dict is an association list in insertion order.\<close>

datatype pyfloat = FloatFinite bool nat int | FloatInf bool | FloatNaN

datatype json =
    JNull
  | JBool bool
  | JInt int
  | JFloat pyfloat
  | JStr string
  | JArr "json list"
  | JObj "(string \<times> json) list"

type_synonym pydict = "(string \<times> json) list"

text \<open>The exceptions of the model. \<open>AttributeError\<close> and \<open>TypeError\<close> are raised by the
  interpreter when a value of a document has not the shape the code reads;
  \<open>ValueError\<close> and \<open>RecursionError\<close> are raised by \<open>json.loads\<close> on an integer literal
  of more than 4300 digits and on a document nested too deep.\<close>

datatype py_error =
    AttributeError
  | TypeError
  | ValueError
  | RecursionError
  | AnalysisError string
  | GenerationError string

text \<open>\<open>json.loads\<close> belongs to the Python standard library and is a parameter of the
  model. A call has one of three outcomes: it returns the parsed document, it raises
  \<open>json.JSONDecodeError\<close>, or it raises an exception that is no \<open>JSONDecodeError\<close>.
  It is only applied to texts that begin with an opening brace, for which a
  successful parse is a dict.\<close>

datatype loads_result =
    Parsed pydict
  | JSONDecodeError
  | OtherError py_error

type_synonym json_loads = "string \<Rightarrow> loads_result"

subsection \<open>extract_json\<close>

text \<open>\<open>re.sub(r'<think>.*?</think>', '', text, flags=re.DOTALL)\<close>: scanning from the
  left, every opening marker that is followed by a closing marker is removed together
  with everything up to the first such closing marker; scanning resumes after it.\<close>

function strip_think :: "string \<Rightarrow> string" where
  "strip_think [] = []"
| "strip_think (c # cs) =
     (if prefix ''<think>'' (c # cs) then
        (case find_after ''</think>'' (drop 7 (c # cs)) of
           Some rest \<Rightarrow> strip_think rest
         | None \<Rightarrow> c # strip_think cs)
      else c # strip_think cs)"
  by pat_completeness auto
termination
proof (relation "measure length")
  fix c :: char and cs rest
  assume "find_after ''</think>'' (drop 7 (c # cs)) = Some rest"
  then have "length rest \<le> length (drop 7 (c # cs))"
    by (rule find_after_length)
  then show "(rest, c # cs) \<in> measure length" by simp
qed auto

text \<open>\<open>[\s\S]*?\}\s*```\<close>, the lazy tail of the fenced pattern: the shortest run that
  ends in a closing brace followed by optional whitespace and a closing fence. The
  result is the part captured by the group.\<close>

fun lazy_json_body :: "string \<Rightarrow> string option" where
  "lazy_json_body [] = None"
| "lazy_json_body (c # cs) =
     (if c = CHR ''}'' \<and> prefix ''```'' (skip_spaces cs) then Some [c]
      else map_option ((#) c) (lazy_json_body cs))"

text \<open>\<open>```(?:json)?\s*(\{[\s\S]*?\})\s*```\<close> anchored at the head of the text; the
  result is group 1. The optional \<open>json\<close> is taken when present: without it the next
  character \<open>j\<close> is neither whitespace nor a brace.\<close>

definition fenced_json_at :: "string \<Rightarrow> string option" where
  "fenced_json_at s =
     (if prefix ''```'' s then
        (let r = drop 3 s;
             r1 = (if prefix ''json'' r then drop 4 r else r)
         in case skip_spaces r1 of
              [] \<Rightarrow> None
            | c # body \<Rightarrow>
                if c = CHR ''{'' then map_option ((#) c) (lazy_json_body body) else None)
      else None)"

text \<open>\<open>re.search\<close>: the leftmost position at which the anchored match succeeds.\<close>

fun search_fenced_json :: "string \<Rightarrow> string option" where
  "search_fenced_json [] = None"
| "search_fenced_json (c # cs) =
     (case fenced_json_at (c # cs) of
        Some g \<Rightarrow> Some g
      | None \<Rightarrow> search_fenced_json cs)"

text \<open>\<open>[\s\S]*\}\<close>, greedy: up to the last closing brace.\<close>

fun upto_last_brace :: "string \<Rightarrow> string option" where
  "upto_last_brace [] = None"
| "upto_last_brace (c # cs) =
     (case upto_last_brace cs of
        Some r \<Rightarrow> Some (c # r)
      | None \<Rightarrow> if c = CHR ''}'' then Some [c] else None)"

text \<open>\<open>re.search(r'\{[\s\S]*\}', text)\<close>, group 0.\<close>

fun search_braces :: "string \<Rightarrow> string option" where
  "search_braces [] = None"
| "search_braces (c # cs) =
     (if c = CHR ''{'' then
        (case upto_last_brace cs of
           Some r \<Rightarrow> Some (c # r)
         | None \<Rightarrow> search_braces cs)
      else search_braces cs)"

text \<open>Each of the two \<open>try\<close> blocks returns what \<open>json.loads\<close> returns and passes on
  \<open>except json.JSONDecodeError\<close>; any other exception of \<open>json.loads\<close> is not caught
  and leaves \<open>extract_json\<close> (\<open>Inl\<close>). \<open>raw_attempt\<close> is the second block followed by
  \<open>return None\<close>.\<close>

definition extract_json :: "json_loads \<Rightarrow> string \<Rightarrow> py_error + pydict option" where
  "extract_json loads text0 =
     (let text = strip_think text0;
          raw_attempt =
            (case search_braces text of
               Some g \<Rightarrow>
                 (case loads g of
                    Parsed d \<Rightarrow> Inr (Some d)
                  | JSONDecodeError \<Rightarrow> Inr None
                  | OtherError e \<Rightarrow> Inl e)
             | None \<Rightarrow> Inr None)
      in case search_fenced_json text of
           Some g \<Rightarrow>
             (case loads g of
                Parsed d \<Rightarrow> Inr (Some d)
              | JSONDecodeError \<Rightarrow> raw_attempt
              | OtherError e \<Rightarrow> Inl e)
         | None \<Rightarrow> raw_attempt)"

subsection \<open>extract_html\<close>

text \<open>\<open>[\s\S]*?</html>\s*```\<close> under \<open>re.IGNORECASE\<close>: the shortest run up to a closing
  root tag that is followed by optional whitespace and a closing fence.\<close>

fun lazy_html_body :: "string \<Rightarrow> string option" where
  "lazy_html_body [] = None"
| "lazy_html_body (c # cs) =
     (if ci_prefix ''</html>'' (c # cs) \<and> prefix ''```'' (skip_spaces (drop 7 (c # cs)))
      then Some (take 7 (c # cs))
      else map_option ((#) c) (lazy_html_body cs))"

text \<open>\<open>```(?:html)?\s*(<!DOCTYPE[\s\S]*?</html>)\s*```\<close> anchored at the head of the
  text, group 1.\<close>

definition fenced_html_at :: "string \<Rightarrow> string option" where
  "fenced_html_at s =
     (if prefix ''```'' s then
        (let r = drop 3 s;
             r1 = (if ci_prefix ''html'' r then drop 4 r else r);
             r2 = skip_spaces r1
         in if ci_prefix ''<!DOCTYPE'' r2
            then map_option ((@) (take 9 r2)) (lazy_html_body (drop 9 r2))
            else None)
      else None)"

fun search_fenced_html :: "string \<Rightarrow> string option" where
  "search_fenced_html [] = None"
| "search_fenced_html (c # cs) =
     (case fenced_html_at (c # cs) of
        Some g \<Rightarrow> Some g
      | None \<Rightarrow> search_fenced_html cs)"

text \<open>\<open>[\s\S]*</html>\<close>, greedy: up to the last closing root tag.\<close>

fun upto_last_html :: "string \<Rightarrow> string option" where
  "upto_last_html [] = None"
| "upto_last_html (c # cs) =
     (case upto_last_html cs of
        Some r \<Rightarrow> Some (c # r)
      | None \<Rightarrow> if ci_prefix ''</html>'' (c # cs) then Some (take 7 (c # cs)) else None)"

text \<open>\<open>(<!DOCTYPE[\s\S]*</html>)\<close> anchored at the head of the text.\<close>

definition raw_html_at :: "string \<Rightarrow> string option" where
  "raw_html_at s =
     (if ci_prefix ''<!DOCTYPE'' s
      then map_option ((@) (take 9 s)) (upto_last_html (drop 9 s))
      else None)"

fun search_raw_html :: "string \<Rightarrow> string option" where
  "search_raw_html [] = None"
| "search_raw_html (c # cs) =
     (case raw_html_at (c # cs) of
        Some g \<Rightarrow> Some g
      | None \<Rightarrow> search_raw_html cs)"

definition extract_html :: "string \<Rightarrow> string" where
  "extract_html text =
     (case search_fenced_html text of
        Some g \<Rightarrow> strip g
      | None \<Rightarrow>
          (case search_raw_html text of
             Some g \<Rightarrow> strip g
           | None \<Rightarrow> strip text))"

subsection \<open>What the specification calls a fenced block and a brace-delimited span\<close>

text \<open>\<open>fenced_object text g\<close>: the text contains a fenced code block, with or without
  the \<open>json\<close> tag, whose content \<open>g\<close> starts with an opening and ends with a closing
  brace. \<open>largest_brace_span\<close> is the span from the first opening brace to the last
  closing brace after it.\<close>

definition fenced_object :: "string \<Rightarrow> string \<Rightarrow> bool" where
  "fenced_object text g =
     (\<exists>pre tag ws1 ws2 post.
        text = pre @ ''```'' @ tag @ ws1 @ g @ ws2 @ ''```'' @ post \<and>
        (tag = [] \<or> tag = ''json'') \<and> list_all is_space ws1 \<and> list_all is_space ws2 \<and>
        2 \<le> length g \<and> hd g = CHR ''{'' \<and> last g = CHR ''}'')"

definition largest_brace_span :: "string \<Rightarrow> string option" where
  "largest_brace_span text =
     (let s1 = dropWhile (\<lambda>c. c \<noteq> CHR ''{'') text;
          s2 = rev (dropWhile (\<lambda>c. c \<noteq> CHR ''}'') (rev s1))
      in if s2 = [] then None else Some s2)"





text \<open>A stand-in for \<open>json.loads\<close> that parses exactly the listed documents and raises
  \<open>json.JSONDecodeError\<close> on every other text.\<close>

definition loads_table :: "(string \<times> pydict) list \<Rightarrow> json_loads" where
  "loads_table tbl s = (case map_of tbl s of Some d \<Rightarrow> Parsed d | None \<Rightarrow> JSONDecodeError)"

subsection \<open>Properties of the matchers\<close>

lemma skip_spaces_append:
  "list_all is_space ws \<Longrightarrow> \<not> is_space c \<Longrightarrow> skip_spaces (ws @ c # r) = c # r"
  by (induction ws) (auto simp: skip_spaces_def)

lemma skip_spacesD:
  "\<exists>ws. s = ws @ skip_spaces s \<and> list_all is_space ws"
proof -
  have "s = takeWhile is_space s @ skip_spaces s"
    by (simp add: skip_spaces_def)
  moreover have "list_all is_space (takeWhile is_space s)"
    by (simp add: list_all_iff) (meson set_takeWhileD)
  ultimately show ?thesis by blast
qed

lemma skip_spaces_head: "skip_spaces s = c # r \<Longrightarrow> \<not> is_space c"
  unfolding skip_spaces_def by (metis hd_dropWhile list.sel(1) list.distinct(1))

lemma lazy_json_body_sound:
  "lazy_json_body b = Some m \<Longrightarrow>
     \<exists>ws post. b = m @ ws @ ''```'' @ post \<and> list_all is_space ws \<and> m \<noteq> [] \<and> last m = CHR ''}''"
proof (induction b arbitrary: m)
  case Nil
  then show ?case by simp
next
  case (Cons c cs)
  show ?case
  proof (cases "c = CHR ''}'' \<and> prefix ''```'' (skip_spaces cs)")
    case True
    with Cons.prems have m: "m = [c]" by simp
    obtain ws where ws: "cs = ws @ skip_spaces cs" "list_all is_space ws"
      using skip_spacesD by blast
    from True obtain post where "skip_spaces cs = ''```'' @ post"
      by (auto simp: prefix_def)
    with ws m True show ?thesis by (metis append_Cons append_Nil last.simps list.distinct(1))
  next
    case False
    with Cons.prems obtain m' where m': "lazy_json_body cs = Some m'" "m = c # m'"
      by auto
    from Cons.IH[OF m'(1)] obtain ws post where
      "cs = m' @ ws @ ''```'' @ post" "list_all is_space ws" "m' \<noteq> []" "last m' = CHR ''}''"
      by blast
    with m' show ?thesis by auto
  qed
qed

lemma lazy_json_body_complete:
  "list_all is_space ws \<Longrightarrow> lazy_json_body (a @ CHR ''}'' # ws @ ''```'' @ post) \<noteq> None"
proof (induction a)
  case Nil
  have "skip_spaces (ws @ ''```'' @ post) = ''```'' @ post"
    using skip_spaces_append[OF Nil, of "CHR 0x60" "''``'' @ post"] by (simp add: is_space_def)
  then show ?case by simp
next
  case (Cons c a)
  then show ?case by simp
qed

lemma skip_spaces_first:
  "\<not> is_space d \<Longrightarrow> skip_spaces (a @ d # rest) = c # r \<Longrightarrow> c \<in> set a \<or> c = d"
  by (induction a) (auto simp: skip_spaces_def split: if_splits)

lemma lazy_json_body_exact:
  "CHR 0x60 \<notin> set a \<Longrightarrow> list_all is_space ws \<Longrightarrow>
     lazy_json_body (a @ CHR ''}'' # ws @ ''```'' @ post) = Some (a @ [CHR ''}''])"
proof (induction a)
  case Nil
  have "skip_spaces (ws @ ''```'' @ post) = ''```'' @ post"
    using skip_spaces_append[OF Nil(2), of "CHR 0x60" "''``'' @ post"] by (simp add: is_space_def)
  then show ?case by simp
next
  case (Cons c a)
  have "\<not> prefix ''```'' (skip_spaces (a @ CHR ''}'' # ws @ ''```'' @ post))"
  proof
    assume "prefix ''```'' (skip_spaces (a @ CHR ''}'' # ws @ ''```'' @ post))"
    then obtain r where r: "skip_spaces (a @ CHR ''}'' # ws @ ''```'' @ post) = CHR 0x60 # r"
      by (auto simp: prefix_def)
    have "\<not> is_space (CHR ''}'')" by (simp add: is_space_def)
    from skip_spaces_first[OF this r] Cons.prems show False by simp
  qed
  with Cons show ?case by simp
qed

lemma fenced_json_at_sound:
  assumes "fenced_json_at s = Some g"
  shows "\<exists>tag ws1 ws2 post.
        s = ''```'' @ tag @ ws1 @ g @ ws2 @ ''```'' @ post \<and>
        (tag = [] \<or> tag = ''json'') \<and> list_all is_space ws1 \<and> list_all is_space ws2 \<and>
        2 \<le> length g \<and> hd g = CHR ''{'' \<and> last g = CHR ''}''"
proof -
  from assms have p: "prefix ''```'' s"
    by (auto simp: fenced_json_at_def split: if_splits)
  define r where "r = drop 3 s"
  define tag where "tag = (if prefix ''json'' r then ''json'' else [])"
  define r1 where "r1 = (if prefix ''json'' r then drop 4 r else r)"
  from p have s: "s = ''```'' @ r" by (auto simp: prefix_def r_def)
  have r: "r = tag @ r1" by (auto simp: tag_def r1_def prefix_def)
  obtain ws1 where ws1: "r1 = ws1 @ skip_spaces r1" "list_all is_space ws1"
    using skip_spacesD by blast
  from assms p obtain body m where
    b: "skip_spaces r1 = CHR ''{'' # body" "lazy_json_body body = Some m" "g = CHR ''{'' # m"
    by (auto simp: fenced_json_at_def Let_def r_def r1_def split: if_splits list.splits)
  from lazy_json_body_sound[OF b(2)] obtain ws2 post where
    m: "body = m @ ws2 @ ''```'' @ post" "list_all is_space ws2" "m \<noteq> []" "last m = CHR ''}''"
    by blast
  have "s = ''```'' @ tag @ ws1 @ g @ ws2 @ ''```'' @ post"
    using s r ws1(1) b(1,3) m(1) by (metis append_Cons append_assoc)
  moreover have "tag = [] \<or> tag = ''json''" by (simp add: tag_def)
  moreover have "2 \<le> length g \<and> hd g = CHR ''{'' \<and> last g = CHR ''}''"
    using b(3) m(3,4) by (cases m) auto
  ultimately show ?thesis using ws1(2) m(2) by blast
qed

lemma fenced_json_at_complete:
  assumes "tag = [] \<or> tag = ''json''" "list_all is_space ws1" "list_all is_space ws2"
    "2 \<le> length g" "hd g = CHR ''{''" "last g = CHR ''}''"
  shows "fenced_json_at (''```'' @ tag @ ws1 @ g @ ws2 @ ''```'' @ post) \<noteq> None"
proof -
  from assms(4,5) obtain xs where xs: "g = CHR ''{'' # xs" "xs \<noteq> []"
    by (cases g) (auto simp: Suc_le_eq)
  with assms(6) have "xs = butlast xs @ [CHR ''}'']"
    by (metis append_butlast_last_id last_ConsR)
  with xs obtain a where g: "g = CHR ''{'' # a @ [CHR ''}'']"
    by blast
  have nsp: "\<not> is_space (CHR ''{'')" by (simp add: is_space_def)
  let ?rest = "ws2 @ ''```'' @ post"
  have sk: "skip_spaces (ws1 @ g @ ?rest) = CHR ''{'' # a @ CHR ''}'' # ?rest"
    using skip_spaces_append[OF assms(2) nsp] by (simp add: g)
  have np: "\<not> prefix ''json'' (ws1 @ g @ ?rest)"
  proof (cases ws1)
    case Nil
    then show ?thesis by (simp add: g)
  next
    case (Cons w ws)
    with assms(2) have "is_space w" by simp
    then have "w \<noteq> CHR ''j''" by (auto simp: is_space_def)
    with Cons show ?thesis by simp
  qed
  have body: "lazy_json_body (a @ CHR ''}'' # ?rest) \<noteq> None"
    using lazy_json_body_complete[OF assms(3)] by simp
  from assms(1) show ?thesis
  proof
    assume "tag = []"
    then show ?thesis using np sk body by (simp add: fenced_json_at_def)
  next
    assume "tag = ''json''"
    then show ?thesis using sk body by (simp add: fenced_json_at_def)
  qed
qed

lemma search_fenced_json_sound:
  "search_fenced_json t = Some g \<Longrightarrow> fenced_object t g"
proof (induction t)
  case Nil
  then show ?case by simp
next
  case (Cons c cs)
  show ?case
  proof (cases "fenced_json_at (c # cs)")
    case None
    with Cons have "fenced_object cs g" by simp
    then obtain pre tag ws1 ws2 post where
      "cs = pre @ ''```'' @ tag @ ws1 @ g @ ws2 @ ''```'' @ post"
      "tag = [] \<or> tag = ''json''" "list_all is_space ws1" "list_all is_space ws2"
      "2 \<le> length g" "hd g = CHR ''{''" "last g = CHR ''}''"
      unfolding fenced_object_def by blast
    then have "c # cs = (c # pre) @ ''```'' @ tag @ ws1 @ g @ ws2 @ ''```'' @ post \<and>
      (tag = [] \<or> tag = ''json'') \<and> list_all is_space ws1 \<and> list_all is_space ws2 \<and>
      2 \<le> length g \<and> hd g = CHR ''{'' \<and> last g = CHR ''}''" by simp
    then show ?thesis unfolding fenced_object_def by blast
  next
    case (Some g')
    with Cons.prems have "g' = g" by simp
    with Some fenced_json_at_sound[of "c # cs" g] show ?thesis
      unfolding fenced_object_def by (metis append_Nil)
  qed
qed

lemma search_fenced_json_append:
  "fenced_json_at s \<noteq> None \<Longrightarrow> search_fenced_json (pre @ s) \<noteq> None"
proof (induction pre)
  case Nil
  show ?case
  proof (cases s)
    case Nil
    with Nil.prems show ?thesis by (simp add: fenced_json_at_def)
  next
    case (Cons c cs)
    with Nil.prems show ?thesis by (auto split: option.splits)
  qed
next
  case (Cons c pre)
  then show ?case by (auto split: option.splits)
qed

lemma search_fenced_json_complete:
  "fenced_object t g \<Longrightarrow> search_fenced_json t \<noteq> None"
  unfolding fenced_object_def
  using fenced_json_at_complete search_fenced_json_append by blast

lemma fenced_object_sublist: "fenced_object t g \<Longrightarrow> sublist g t"
  unfolding fenced_object_def sublist_def by (metis append_assoc)

lemma upto_last_brace_eq:
  "upto_last_brace cs =
     (let r = rev (dropWhile (\<lambda>c. c \<noteq> CHR ''}'') (rev cs)) in if r = [] then None else Some r)"
  by (induction cs) (auto simp: Let_def dropWhile_append dropWhile_eq_Nil_conv)

lemma search_braces_no_close:
  "CHR ''}'' \<notin> set cs \<Longrightarrow> search_braces cs = None"
proof (induction cs)
  case Nil
  then show ?case by simp
next
  case (Cons c cs)
  then have "upto_last_brace cs = None"
    by (auto simp: upto_last_brace_eq Let_def dropWhile_eq_Nil_conv)
  with Cons show ?case by simp
qed

lemma search_braces_eq: "search_braces t = largest_brace_span t"
proof (induction t)
  case Nil
  then show ?case by (simp add: largest_brace_span_def)
next
  case (Cons c cs)
  show ?case
  proof (cases "c = CHR ''{''")
    case False
    with Cons show ?thesis by (simp add: largest_brace_span_def)
  next
    case True
    show ?thesis
    proof (cases "CHR ''}'' \<in> set cs")
      case True
      with \<open>c = CHR ''{''\<close> show ?thesis
        by (auto simp: largest_brace_span_def upto_last_brace_eq Let_def dropWhile_append
            dropWhile_eq_Nil_conv)
    next
      case False
      with \<open>c = CHR ''{''\<close> search_braces_no_close[OF False] show ?thesis
        by (auto simp: largest_brace_span_def upto_last_brace_eq Let_def dropWhile_append
            dropWhile_eq_Nil_conv)
    qed
  qed
qed

lemma largest_brace_span_sublist:
  assumes "largest_brace_span t = Some g"
  shows "sublist g t"
proof -
  define s1 where "s1 = dropWhile (\<lambda>c. c \<noteq> CHR ''{'') t"
  from assms have g: "g = rev (dropWhile (\<lambda>c. c \<noteq> CHR ''}'') (rev s1))"
    by (auto simp: largest_brace_span_def Let_def s1_def split: if_splits)
  have "suffix (dropWhile (\<lambda>c. c \<noteq> CHR ''}'') (rev s1)) (rev s1)"
    by (rule suffix_dropWhile)
  then have "prefix g s1" unfolding g by (simp add: suffix_to_prefix)
  moreover have "suffix s1 t" unfolding s1_def by (rule suffix_dropWhile)
  ultimately show ?thesis
    by (meson prefix_imp_sublist suffix_imp_sublist sublist_order.order_trans)
qed

lemma strip_think_id: "\<not> sublist ''<think>'' t \<Longrightarrow> strip_think t = t"
proof (induction t rule: strip_think.induct)
  case 1
  then show ?case by simp
next
  case (2 c cs)
  from "2.prems" have np: "\<not> prefix ''<think>'' (c # cs)"
    using prefix_imp_sublist by blast
  from "2.prems" have "\<not> sublist ''<think>'' cs"
    by (meson sublist_Cons_right)
  with "2.IH"(3)[OF np] have "strip_think cs = cs" by blast
  moreover have "strip_think (c # cs) = c # strip_think cs"
    by (simp only: strip_think.simps np if_False)
  ultimately show ?case by simp
qed

lemma prefix_append_short:
  "prefix p (a @ b) \<Longrightarrow> length p \<le> length a \<Longrightarrow> prefix p a"
  by (metis prefix_append prefix_length_prefix prefixI)

lemma find_after_first:
  assumes "pat \<noteq> []" "\<not> sublist pat (a @ butlast pat)"
  shows "find_after pat (a @ pat @ post) = Some post"
  using assms(2)
proof (induction a)
  case Nil
  from assms(1) obtain p ps where "pat = p # ps" by (cases pat) auto
  then show ?case by simp
next
  case (Cons c a)
  have "\<not> prefix pat ((c # a) @ pat @ post)"
  proof
    assume "prefix pat ((c # a) @ pat @ post)"
    then have "prefix pat (((c # a) @ butlast pat) @ (last pat # post))"
      using assms(1) by (metis append_assoc append_butlast_last_id append_Cons append_Nil)
    moreover have "length pat \<le> length ((c # a) @ butlast pat)"
      using assms(1) by (cases pat) auto
    ultimately have "prefix pat ((c # a) @ butlast pat)"
      by (rule prefix_append_short)
    with Cons.prems show False using prefix_imp_sublist by blast
  qed
  moreover from Cons.prems have "\<not> sublist pat (a @ butlast pat)"
    by (metis append_Cons sublist_Cons_right)
  ultimately show ?case using Cons.IH by simp
qed

lemma strip_think_region:
  assumes "\<not> sublist ''<think>'' (pre @ ''<think'')"
    and "\<not> sublist ''</think>'' (r @ ''</think'')"
  shows "strip_think (pre @ ''<think>'' @ r @ ''</think>'' @ post) = pre @ strip_think post"
  using assms(1)
proof (induction pre)
  case Nil
  have "find_after ''</think>'' (r @ ''</think>'' @ post) = Some post"
    using find_after_first[of "''</think>''" r post] assms(2) by simp
  moreover have "prefix ''<think>'' (''<think>'' @ r @ ''</think>'' @ post)"
    by simp
  moreover have "drop 7 (''<think>'' @ r @ ''</think>'' @ post) = r @ ''</think>'' @ post"
    by simp
  moreover obtain c cs where ccs: "''<think>'' @ r @ ''</think>'' @ post = c # cs"
    by simp
  ultimately have "strip_think (c # cs) = strip_think post"
    by (simp only: strip_think.simps if_True option.case)
  with ccs show ?case by (simp only: append_Nil)
next
  case (Cons c pre)
  have "\<not> prefix ''<think>'' ((c # pre) @ ''<think>'' @ r @ ''</think>'' @ post)"
  proof
    assume "prefix ''<think>'' ((c # pre) @ ''<think>'' @ r @ ''</think>'' @ post)"
    then have "prefix ''<think>'' (((c # pre) @ ''<think'') @ (CHR ''>'' # r @ ''</think>'' @ post))"
      by (simp only: append_assoc append_Cons append_Nil)
    then have "prefix ''<think>'' ((c # pre) @ ''<think'')"
      by (rule prefix_append_short) simp
    with Cons.prems show False using prefix_imp_sublist by blast
  qed
  then have "strip_think (c # (pre @ ''<think>'' @ r @ ''</think>'' @ post))
             = c # strip_think (pre @ ''<think>'' @ r @ ''</think>'' @ post)"
    by (simp only: strip_think.simps append_Cons if_False)
  moreover from Cons.prems have "\<not> sublist ''<think>'' (pre @ ''<think'')"
    by (metis append_Cons sublist_Cons_right)
  ultimately show ?case using Cons.IH by simp
qed

lemma search_fenced_json_skip:
  "CHR 0x60 \<notin> set ws0 \<Longrightarrow> search_fenced_json (ws0 @ s) = search_fenced_json s"
proof (induction ws0)
  case Nil
  then show ?case by simp
next
  case (Cons c ws0)
  then have "c \<noteq> CHR 0x60" by auto
  then have "fenced_json_at (c # ws0 @ s) = None"
    by (simp add: fenced_json_at_def)
  with Cons show ?case by simp
qed

lemma extract_json_none:
  assumes "\<forall>g. sublist g (strip_think text) \<longrightarrow> loads g = JSONDecodeError"
  shows "extract_json loads text = Inr None"
proof -
  let ?t = "strip_think text"
  have "search_fenced_json ?t = Some g \<Longrightarrow> loads g = JSONDecodeError" for g
    using assms search_fenced_json_sound fenced_object_sublist by blast
  moreover have "search_braces ?t = Some g \<Longrightarrow> loads g = JSONDecodeError" for g
    using assms largest_brace_span_sublist by (simp add: search_braces_eq)
  ultimately show ?thesis
    by (auto simp: extract_json_def Let_def split: option.splits)
qed

lemma extract_json_returns:
  assumes "\<forall>g e. loads g \<noteq> OtherError e"
  shows "\<exists>r. extract_json loads text = Inr r"
  using assms
  by (auto simp: extract_json_def Let_def split: option.splits loads_result.splits)

lemma extract_json_raises_raw:
  assumes "search_fenced_json (strip_think text) = None"
    and "largest_brace_span (strip_think text) = Some g"
    and "loads g = OtherError e"
  shows "extract_json loads text = Inl e"
  using assms by (simp add: extract_json_def Let_def search_braces_eq)

lemma extract_json_raises_fenced:
  assumes "search_fenced_json (strip_think text) = Some g"
    and "loads g = OtherError e"
  shows "extract_json loads text = Inl e"
  using assms by (simp add: extract_json_def Let_def)






























subsection \<open>Claims about the parser\<close>

text \<open>A text the parser can receive: an object whose only value is an integer literal
  of 5000 digits. \<open>json.loads\<close> converts an integer literal with \<open>int\<close>, which raises
  \<open>ValueError\<close> on more than 4300 digits; \<open>long_integer_loads\<close> is a stand-in for
  \<open>json.loads\<close> that has this outcome on this text.\<close>

definition long_integer_text :: string where
  \<open>long_integer_text = ''{"a": '' @ replicate 5000 (CHR ''1'') @ ''}''\<close>

definition long_integer_loads :: json_loads where
  "long_integer_loads s =
     (if s = long_integer_text then OtherError ValueError else JSONDecodeError)"

text \<open>
  Claim C3 says that \<open>extract_json\<close> raises on no input string and returns \<open>None\<close>
  whenever both parse attempts fail, as the docstring of the function does
  (\<open>Parsed dictionary or None if parsing fails\<close>). The code does not do so: its two
  handlers catch \<open>json.JSONDecodeError\<close> only. On the text \<open>long_integer_text\<close> nothing
  is removed, there is no fenced block, the brace span is the whole text, and the
  \<open>ValueError\<close> that \<open>json.loads\<close> raises on it leaves \<open>extract_json\<close>.
\<close>

theorem extract_json_raises_value_error:
  "strip_think long_integer_text = long_integer_text \<and>
   search_fenced_json long_integer_text = None \<and>
   search_braces long_integer_text = Some long_integer_text \<and>
   long_integer_loads long_integer_text = OtherError ValueError \<and>
   extract_json long_integer_loads long_integer_text = Inl ValueError"
proof -
  have "\<not> sublist ''<think>'' long_integer_text"
  proof
    assume "sublist ''<think>'' long_integer_text"
    then have "set ''<think>'' \<subseteq> set long_integer_text"
      by (rule set_mono_sublist)
    then have "CHR ''<'' \<in> set long_integer_text" by simp
    then show False by (simp add: long_integer_text_def)
  qed
  then have st: "strip_think long_integer_text = long_integer_text"
    by (rule strip_think_id)
  have "CHR 0x60 \<notin> set long_integer_text"
    by (simp add: long_integer_text_def)
  then have "search_fenced_json (long_integer_text @ []) = search_fenced_json []"
    by (rule search_fenced_json_skip)
  then have sf: "search_fenced_json long_integer_text = None" by simp
  have lb: "largest_brace_span long_integer_text = Some long_integer_text"
    by (simp add: largest_brace_span_def long_integer_text_def)
  then have sb: "search_braces long_integer_text = Some long_integer_text"
    by (simp only: search_braces_eq)
  have l: "long_integer_loads long_integer_text = OtherError ValueError"
    by (simp add: long_integer_loads_def)
  have "extract_json long_integer_loads long_integer_text = Inl ValueError"
  proof (rule extract_json_raises_raw)
    show "search_fenced_json (strip_think long_integer_text) = None"
      by (simp only: st sf)
    show "largest_brace_span (strip_think long_integer_text) = Some long_integer_text"
      by (simp only: st lb)
    show "long_integer_loads long_integer_text = OtherError ValueError"
      by (rule l)
  qed
  with st sf sb l show ?thesis by simp
qed



section \<open>CVData (src/models/cv_data.py)\<close>

text \<open>The dataclasses. Python does not enforce the annotations, and \<open>from_dict\<close> stores
  whatever the parsed document holds, so a field that is read from a document is a
  \<open>json\<close> value; the lists that \<open>from_dict\<close> builds itself are lists of records.\<close>

record PersonalInfo =
  p_name :: json
  p_title :: json
  p_tagline :: json
  p_bio :: json
  p_email :: json
  p_phone :: json
  p_location :: json

record Links =
  l_linkedin :: json
  l_github :: json
  l_website :: json
  l_other :: json

record Experience =
  e_company :: json
  e_role :: json
  e_period :: json
  e_description :: json
  e_highlights :: json

record Project =
  pr_name :: json
  pr_description :: json
  pr_tech_stack :: json
  pr_link :: json
  pr_type :: json

record Education =
  ed_institution :: json
  ed_degree :: json
  ed_period :: json

record Skills =
  s_languages :: json
  s_frameworks :: json
  s_tools :: json
  s_specialties :: json

record CVData =
  personal :: PersonalInfo
  links :: Links
  experience :: "Experience list"
  projects :: "Project list"
  education :: "Education list"
  skills :: Skills
  certifications :: json
  languages_spoken :: json
  raw_analysis :: json
  original_cv_text :: string

text \<open>The default instances (\<open>PersonalInfo()\<close>, \<open>Links()\<close>, \<open>Skills()\<close>, \<open>CVData()\<close>).\<close>

definition PersonalInfo_default :: PersonalInfo where
  "PersonalInfo_default =
     \<lparr>p_name = JStr [], p_title = JStr [], p_tagline = JStr [], p_bio = JStr [],
      p_email = JNull, p_phone = JNull, p_location = JNull\<rparr>"

definition Links_default :: Links where
  "Links_default =
     \<lparr>l_linkedin = JNull, l_github = JNull, l_website = JNull, l_other = JArr []\<rparr>"

definition Skills_default :: Skills where
  "Skills_default =
     \<lparr>s_languages = JArr [], s_frameworks = JArr [], s_tools = JArr [],
      s_specialties = JArr []\<rparr>"

definition CVData_default :: CVData where
  "CVData_default =
     \<lparr>personal = PersonalInfo_default, links = Links_default, experience = [],
      projects = [], education = [], skills = Skills_default, certifications = JArr [],
      languages_spoken = JArr [], raw_analysis = JNull, original_cv_text = []\<rparr>"

subsection \<open>to_dict\<close>

definition experience_to_dict :: "Experience \<Rightarrow> json" where
  "experience_to_dict exp =
     JObj [(''company'', e_company exp), (''role'', e_role exp), (''period'', e_period exp),
           (''description'', e_description exp), (''highlights'', e_highlights exp)]"

definition project_to_dict :: "Project \<Rightarrow> json" where
  "project_to_dict proj =
     JObj [(''name'', pr_name proj), (''description'', pr_description proj),
           (''tech_stack'', pr_tech_stack proj), (''link'', pr_link proj),
           (''type'', pr_type proj)]"

definition education_to_dict :: "Education \<Rightarrow> json" where
  "education_to_dict edu =
     JObj [(''institution'', ed_institution edu), (''degree'', ed_degree edu),
           (''period'', ed_period edu)]"

definition to_dict :: "CVData \<Rightarrow> pydict" where
  "to_dict cv =
     [(''personal'',
         JObj [(''name'', p_name (personal cv)), (''title'', p_title (personal cv)),
               (''tagline'', p_tagline (personal cv)), (''bio'', p_bio (personal cv)),
               (''email'', p_email (personal cv)), (''phone'', p_phone (personal cv)),
               (''location'', p_location (personal cv))]),
      (''links'',
         JObj [(''linkedin'', l_linkedin (links cv)), (''github'', l_github (links cv)),
               (''website'', l_website (links cv)), (''other'', l_other (links cv))]),
      (''experience'', JArr (map experience_to_dict (experience cv))),
      (''projects'', JArr (map project_to_dict (projects cv))),
      (''education'', JArr (map education_to_dict (education cv))),
      (''skills'',
         JObj [(''languages'', s_languages (skills cv)),
               (''frameworks'', s_frameworks (skills cv)),
               (''tools'', s_tools (skills cv)),
               (''specialties'', s_specialties (skills cv))]),
      (''certifications'', certifications cv),
      (''languages_spoken'', languages_spoken cv)]"

subsection \<open>from_dict\<close>

text \<open>\<open>d.get(key, default)\<close> on a dict.\<close>

definition dict_get :: "pydict \<Rightarrow> string \<Rightarrow> json \<Rightarrow> json" where
  "dict_get d k dflt = (case map_of d k of Some v \<Rightarrow> v | None \<Rightarrow> dflt)"

text \<open>\<open>for x in v\<close>: a list yields its elements, a dict its keys, a string its
  characters; the other values are not iterable.\<close>

definition py_iter :: "json \<Rightarrow> py_error + json list" where
  "py_iter v =
     (case v of
        JArr xs \<Rightarrow> Inr xs
      | JObj kvs \<Rightarrow> Inr (map (\<lambda>kv. JStr (fst kv)) kvs)
      | JStr s \<Rightarrow> Inr (map (\<lambda>c. JStr [c]) s)
      | _ \<Rightarrow> Inl TypeError)"

text \<open>A list comprehension whose element expression may raise: the first failure ends it.\<close>

fun map_raise :: "('a \<Rightarrow> py_error + 'b) \<Rightarrow> 'a list \<Rightarrow> py_error + 'b list" where
  "map_raise f [] = Inr []"
| "map_raise f (x # xs) =
     (case f x of
        Inl e \<Rightarrow> Inl e
      | Inr y \<Rightarrow> (case map_raise f xs of Inl e \<Rightarrow> Inl e | Inr ys \<Rightarrow> Inr (y # ys)))"

text \<open>The constructor calls of \<open>from_dict\<close>. Every argument is a \<open>.get\<close> on the same
  value, which only a dict has: on any other value the first of them raises
  \<open>AttributeError\<close>.\<close>

definition parse_personal :: "json \<Rightarrow> py_error + PersonalInfo" where
  "parse_personal p =
     (case p of
        JObj d \<Rightarrow>
          Inr \<lparr>p_name = dict_get d ''name'' (JStr []),
               p_title = dict_get d ''title'' (JStr []),
               p_tagline = dict_get d ''tagline'' (JStr []),
               p_bio = dict_get d ''bio'' (JStr []),
               p_email = dict_get d ''email'' JNull,
               p_phone = dict_get d ''phone'' JNull,
               p_location = dict_get d ''location'' JNull\<rparr>
      | _ \<Rightarrow> Inl AttributeError)"

definition parse_links :: "json \<Rightarrow> py_error + Links" where
  "parse_links l =
     (case l of
        JObj d \<Rightarrow>
          Inr \<lparr>l_linkedin = dict_get d ''linkedin'' JNull,
               l_github = dict_get d ''github'' JNull,
               l_website = dict_get d ''website'' JNull,
               l_other = dict_get d ''other'' (JArr [])\<rparr>
      | _ \<Rightarrow> Inl AttributeError)"

definition parse_experience :: "json \<Rightarrow> py_error + Experience" where
  "parse_experience exp =
     (case exp of
        JObj d \<Rightarrow>
          Inr \<lparr>e_company = dict_get d ''company'' (JStr []),
               e_role = dict_get d ''role'' (JStr []),
               e_period = dict_get d ''period'' (JStr []),
               e_description = dict_get d ''description'' (JStr []),
               e_highlights = dict_get d ''highlights'' (JArr [])\<rparr>
      | _ \<Rightarrow> Inl AttributeError)"

definition parse_project :: "json \<Rightarrow> py_error + Project" where
  "parse_project proj =
     (case proj of
        JObj d \<Rightarrow>
          Inr \<lparr>pr_name = dict_get d ''name'' (JStr []),
               pr_description = dict_get d ''description'' (JStr []),
               pr_tech_stack = dict_get d ''tech_stack'' (JArr []),
               pr_link = dict_get d ''link'' JNull,
               pr_type = dict_get d ''type'' (JStr [])\<rparr>
      | _ \<Rightarrow> Inl AttributeError)"

definition parse_education :: "json \<Rightarrow> py_error + Education" where
  "parse_education edu =
     (case edu of
        JObj d \<Rightarrow>
          Inr \<lparr>ed_institution = dict_get d ''institution'' (JStr []),
               ed_degree = dict_get d ''degree'' (JStr []),
               ed_period = dict_get d ''period'' (JStr [])\<rparr>
      | _ \<Rightarrow> Inl AttributeError)"

definition parse_skills :: "json \<Rightarrow> py_error + Skills" where
  "parse_skills s =
     (case s of
        JObj d \<Rightarrow>
          Inr \<lparr>s_languages = dict_get d ''languages'' (JArr []),
               s_frameworks = dict_get d ''frameworks'' (JArr []),
               s_tools = dict_get d ''tools'' (JArr []),
               s_specialties = dict_get d ''specialties'' (JArr [])\<rparr>
      | _ \<Rightarrow> Inl AttributeError)"

text \<open>\<open>[f(x) for x in v]\<close>.\<close>

definition parse_list :: "(json \<Rightarrow> py_error + 'a) \<Rightarrow> json \<Rightarrow> py_error + 'a list" where
  "parse_list f v = (case py_iter v of Inl e \<Rightarrow> Inl e | Inr xs \<Rightarrow> map_raise f xs)"

text \<open>One \<open>if key in data: cv.field = ...\<close> step of \<open>from_dict\<close>: the field keeps its
  default when the key is absent, and the step raises when the parse does.\<close>

definition section_step ::
  "pydict \<Rightarrow> string \<Rightarrow> (json \<Rightarrow> py_error + 'a) \<Rightarrow> 'a \<Rightarrow> py_error + 'a" where
  "section_step data key parse dflt =
     (case map_of data key of None \<Rightarrow> Inr dflt | Some v \<Rightarrow> parse v)"

definition from_dict :: "pydict \<Rightarrow> string \<Rightarrow> py_error + CVData" where
  "from_dict data cv_text =
     (case section_step data ''personal'' parse_personal PersonalInfo_default of
        Inl e \<Rightarrow> Inl e
      | Inr per \<Rightarrow>
     (case section_step data ''links'' parse_links Links_default of
        Inl e \<Rightarrow> Inl e
      | Inr lnk \<Rightarrow>
     (case section_step data ''experience'' (parse_list parse_experience) [] of
        Inl e \<Rightarrow> Inl e
      | Inr exps \<Rightarrow>
     (case section_step data ''projects'' (parse_list parse_project) [] of
        Inl e \<Rightarrow> Inl e
      | Inr projs \<Rightarrow>
     (case section_step data ''education'' (parse_list parse_education) [] of
        Inl e \<Rightarrow> Inl e
      | Inr edus \<Rightarrow>
     (case section_step data ''skills'' parse_skills Skills_default of
        Inl e \<Rightarrow> Inl e
      | Inr skl \<Rightarrow>
          Inr \<lparr>personal = per, links = lnk, experience = exps, projects = projs,
               education = edus, skills = skl,
               certifications = dict_get data ''certifications'' (JArr []),
               languages_spoken = dict_get data ''languages_spoken'' (JArr []),
               raw_analysis = dict_get data ''raw_analysis'' JNull,
               original_cv_text = cv_text\<rparr>))))))"

lemma parse_experience_to_dict: "parse_experience (experience_to_dict x) = Inr x"
  by (simp add: parse_experience_def experience_to_dict_def dict_get_def)

lemma map_raise_experience:
  "map_raise parse_experience (map experience_to_dict xs) = Inr xs"
  by (induction xs) (simp_all add: parse_experience_to_dict)

lemma parse_project_to_dict: "parse_project (project_to_dict x) = Inr x"
  by (simp add: parse_project_def project_to_dict_def dict_get_def)

lemma map_raise_project:
  "map_raise parse_project (map project_to_dict xs) = Inr xs"
  by (induction xs) (simp_all add: parse_project_to_dict)

lemma parse_education_to_dict: "parse_education (education_to_dict x) = Inr x"
  by (simp add: parse_education_def education_to_dict_def dict_get_def)

lemma map_raise_education:
  "map_raise parse_education (map education_to_dict xs) = Inr xs"
  by (induction xs) (simp_all add: parse_education_to_dict)

text \<open>
  Claim C10. Serialization round trip: for every record whose raw analysis is \<open>None\<close>
  and whose original text is empty, \<open>from_dict (to_dict cv)\<close> gives the record back, so
  every structured field survives the dictionary although \<open>to_dict\<close> leaves out the raw
  analysis and the original text.
\<close>

theorem from_dict_to_dict:
  "raw_analysis cv = JNull \<and> original_cv_text cv = [] \<longrightarrow>
     from_dict (to_dict cv) [] = Inr cv"
proof
  assume a: "raw_analysis cv = JNull \<and> original_cv_text cv = []"
  have 1: "section_step (to_dict cv) ''personal'' parse_personal PersonalInfo_default
           = Inr (personal cv)"
    by (simp add: section_step_def to_dict_def parse_personal_def dict_get_def)
  have 2: "section_step (to_dict cv) ''links'' parse_links Links_default = Inr (links cv)"
    by (simp add: section_step_def to_dict_def parse_links_def dict_get_def)
  have 3: "section_step (to_dict cv) ''experience'' (parse_list parse_experience) []
           = Inr (experience cv)"
    by (simp add: section_step_def to_dict_def parse_list_def py_iter_def map_raise_experience)
  have 4: "section_step (to_dict cv) ''projects'' (parse_list parse_project) []
           = Inr (projects cv)"
    by (simp add: section_step_def to_dict_def parse_list_def py_iter_def map_raise_project)
  have 5: "section_step (to_dict cv) ''education'' (parse_list parse_education) []
           = Inr (education cv)"
    by (simp add: section_step_def to_dict_def parse_list_def py_iter_def map_raise_education)
  have 6: "section_step (to_dict cv) ''skills'' parse_skills Skills_default = Inr (skills cv)"
    by (simp add: section_step_def to_dict_def parse_skills_def dict_get_def)
  have 7: "dict_get (to_dict cv) ''certifications'' (JArr []) = certifications cv"
    "dict_get (to_dict cv) ''languages_spoken'' (JArr []) = languages_spoken cv"
    "dict_get (to_dict cv) ''raw_analysis'' JNull = JNull"
    by (simp_all add: to_dict_def dict_get_def)
  show "from_dict (to_dict cv) [] = Inr cv"
    unfolding from_dict_def 1 2 3 4 5 6 7 using a by simp
qed

definition sample_cv :: CVData where
  "sample_cv =
     CVData_default
       \<lparr>personal := PersonalInfo_default\<lparr>p_name := JStr ''Jane Doe'', p_email := JStr ''jane@example.org''\<rparr>,
        links := Links_default\<lparr>l_github := JStr ''https://github.com/jane''\<rparr>,
        experience := [\<lparr>e_company = JStr ''Acme'', e_role = JStr ''Developer'',
                         e_period = JStr ''2020-2023'', e_description = JStr ''Games'',
                         e_highlights = JArr [JStr ''Shipped'']\<rparr>],
        projects := [\<lparr>pr_name = JStr ''Rowa'', pr_description = JStr ''Station'',
                       pr_tech_stack = JArr [JStr ''Unity''], pr_link = JNull,
                       pr_type = JStr ''Game''\<rparr>],
        education := [\<lparr>ed_institution = JStr ''MIT'', ed_degree = JStr ''BSc'',
                        ed_period = JStr ''2016-2020''\<rparr>],
        skills := Skills_default\<lparr>s_languages := JArr [JStr ''Python'', JStr ''C#'']\<rparr>,
        certifications := JArr [JStr ''AWS''],
        languages_spoken := JArr [JStr ''English'']\<rparr>"

theorem from_dict_to_dict_witness:
  "raw_analysis sample_cv = JNull \<and> original_cv_text sample_cv = [] \<and>
   from_dict (to_dict sample_cv) [] = Inr sample_cv"
  using from_dict_to_dict [of sample_cv]
  by (simp add: sample_cv_def CVData_default_def)

section \<open>QwenPortfolioGenerator (src/services/qwen_portfolio_generator.py)\<close>

subsection \<open>apply_fixes\<close>

text \<open>The two blocks that \<open>apply_fixes\<close> injects.\<close>

definition aos_css_fix :: string where
  \<open>aos_css_fix =
     ''\<newline>'' @
     ''    <style>\<newline>'' @
     ''        /* AOS Visibility Fallback */\<newline>'' @
     ''        [data-aos] {\<newline>'' @
     ''            opacity: 1 !important;\<newline>'' @
     ''            transform: none !important;\<newline>'' @
     ''        }\<newline>'' @
     ''        .aos-init [data-aos] {\<newline>'' @
     ''            opacity: 0;\<newline>'' @
     ''            transform: translateY(20px);\<newline>'' @
     ''        }\<newline>'' @
     ''        .aos-init .aos-animate {\<newline>'' @
     ''            opacity: 1 !important;\<newline>'' @
     ''            transform: none !important;\<newline>'' @
     ''        }\<newline>'' @
     ''    </style>\<newline>'' @
     ''    ''\<close>

definition aos_js_fix :: string where
  \<open>aos_js_fix =
     ''\<newline>'' @
     ''    <script>\<newline>'' @
     ''        window.addEventListener(\'load\', function() {\<newline>'' @
     ''            if (typeof lucide !== \'undefined\') lucide.createIcons();\<newline>'' @
     ''            if (typeof AOS !== \'undefined\') {\<newline>'' @
     ''                AOS.init({ duration: 800, once: true, offset: 50 });\<newline>'' @
     ''            }\<newline>'' @
     ''            setTimeout(function() {\<newline>'' @
     ''                document.querySelectorAll(\'[data-aos]\').forEach(function(el) {\<newline>'' @
     ''                    el.classList.add(\'aos-animate\');\<newline>'' @
     ''                });\<newline>'' @
     ''            }, 1000);\<newline>'' @
     ''        });\<newline>'' @
     ''    </script>\<newline>'' @
     ''    ''\<close>

text \<open>\<open>str.replace(old, new)\<close>: every occurrence of \<open>old\<close>, found from the left without
  overlap, is replaced. For an empty \<open>old\<close> Python puts \<open>new\<close> before every character
  and at the end.\<close>

function str_replace :: "string \<Rightarrow> string \<Rightarrow> string \<Rightarrow> string" where
  "str_replace old new s =
     (if old = [] then new @ concat (map (\<lambda>c. c # new) s)
      else case s of
             [] \<Rightarrow> []
           | c # cs \<Rightarrow>
               if prefix old s then new @ str_replace old new (drop (length old) s)
               else c # str_replace old new cs)"
  by pat_completeness auto
termination
  by (relation "measure (\<lambda>(old, new, s). length s)") auto

declare str_replace.simps [simp del]

definition apply_fixes :: "string \<Rightarrow> string" where
  "apply_fixes html =
     (let html1 = (if sublist ''</head>'' html
                   then str_replace ''</head>'' (aos_css_fix @ ''\<newline></head>'') html
                   else html);
          html2 = (if sublist ''</body>'' html1
                   then str_replace ''</body>'' (aos_js_fix @ ''\<newline></body>'') html1
                   else html1)
      in html2)"

text \<open>\<open>starts_free old u\<close>: no occurrence of \<open>old\<close> can begin inside \<open>u\<close>, whatever text
  follows \<open>u\<close>.\<close>

fun starts_free :: "string \<Rightarrow> string \<Rightarrow> bool" where
  "starts_free old [] = True"
| "starts_free old (c # cs) =
     (\<not> prefix old (c # cs) \<and> \<not> prefix (c # cs) old \<and> starts_free old cs)"

lemma str_replace_Nil: "old \<noteq> [] \<Longrightarrow> str_replace old new [] = []"
  by (subst str_replace.simps) simp

lemma str_replace_hit:
  "old \<noteq> [] \<Longrightarrow> str_replace old new (old @ s) = new @ str_replace old new s"
  by (subst str_replace.simps) (cases old; simp)

lemma str_replace_miss:
  "old \<noteq> [] \<Longrightarrow> \<not> prefix old (c # cs) \<Longrightarrow>
     str_replace old new (c # cs) = c # str_replace old new cs"
  by (subst str_replace.simps) simp

lemma starts_free_drop: "starts_free old u \<Longrightarrow> starts_free old (drop k u)"
proof (induction u arbitrary: k)
  case Nil
  then show ?case by simp
next
  case (Cons c cs)
  then show ?case by (cases k) simp_all
qed

lemma str_replace_starts_free:
  assumes "old \<noteq> []"
  shows "starts_free old u \<Longrightarrow> str_replace old new (u @ rest) = u @ str_replace old new rest"
proof (induction u)
  case Nil
  then show ?case by simp
next
  case (Cons c cs)
  from Cons.prems have np: "\<not> prefix old (c # cs)" "\<not> prefix (c # cs) old" and sf: "starts_free old cs"
    by simp_all
  have "\<not> prefix old ((c # cs) @ rest)"
  proof
    assume "prefix old ((c # cs) @ rest)"
    then have "prefix old (c # cs) \<or> prefix (c # cs) old"
      by (metis prefix_append prefixI)
    with np show False by blast
  qed
  then have "str_replace old new ((c # cs) @ rest) = c # str_replace old new (cs @ rest)"
    using str_replace_miss[OF assms] by simp
  with Cons.IH[OF sf] show ?case by simp
qed

lemma str_replace_first:
  assumes "old \<noteq> []"
  shows "sublist old s \<Longrightarrow> \<exists>pre rest. str_replace old new s = pre @ new @ rest"
proof (induction s)
  case Nil
  with assms show ?case by simp
next
  case (Cons c cs)
  show ?case
  proof (cases "prefix old (c # cs)")
    case True
    then obtain s' where "c # cs = old @ s'" by (auto simp: prefix_def)
    then have "str_replace old new (c # cs) = [] @ new @ str_replace old new s'"
      using str_replace_hit[OF assms] by simp
    then show ?thesis by blast
  next
    case False
    with Cons.prems have "sublist old cs" by (simp add: sublist_Cons_right)
    from Cons.IH[OF this] obtain pre rest where "str_replace old new cs = pre @ new @ rest"
      by blast
    then have "str_replace old new (c # cs) = (c # pre) @ new @ rest"
      using str_replace_miss[OF assms False] by simp
    then show ?thesis by blast
  qed
qed

lemma str_replace_keeps:
  assumes "old \<noteq> []" "starts_free old (tl t)"
  shows "sublist t s \<Longrightarrow> sublist t (str_replace old (ins @ old) s)"
proof (induction s rule: length_induct)
  case (1 s)
  let ?R = "str_replace old (ins @ old)"
  show ?case
  proof (cases s)
    case Nil
    with "1.prems" show ?thesis by simp
  next
    case (Cons c cs)
    show ?thesis
    proof (cases "prefix old s")
      case False
      then have R: "?R s = c # ?R cs"
        unfolding Cons using str_replace_miss[OF assms(1)] by blast
      from "1.prems" have "prefix t (c # cs) \<or> sublist t cs"
        unfolding Cons by (simp add: sublist_Cons_right)
      then show ?thesis
      proof
        assume "sublist t cs"
        then have "sublist t (?R cs)" using "1.IH" Cons by simp
        then show ?thesis unfolding R by (simp add: sublist_Cons_right)
      next
        assume p: "prefix t (c # cs)"
        show ?thesis
        proof (cases t)
          case Nil
          then show ?thesis by simp
        next
          case (Cons d t')
          with p obtain rest where cs: "cs = t' @ rest" and d: "d = c"
            by (auto simp: prefix_def)
          from assms(2) Cons have "starts_free old t'" by simp
          then have "?R cs = t' @ ?R rest"
            unfolding cs by (rule str_replace_starts_free[OF assms(1)])
          then have "?R s = [] @ t @ ?R rest" unfolding R Cons d by simp
          then show ?thesis using sublist_appendI[of t "[]" "?R rest"] by simp
        qed
      qed
    next
      case True
      then obtain s' where s: "s = old @ s'" by (auto simp: prefix_def)
      have R: "?R s = ins @ old @ ?R s'"
        unfolding s using str_replace_hit[OF assms(1)] by simp
      have len: "length s' < length s" using s assms(1) by simp
      from "1.prems" have "sublist t old \<or> sublist t s' \<or>
          (\<exists>t1 t2. t = t1 @ t2 \<and> suffix t1 old \<and> prefix t2 s')"
        unfolding s sublist_append .
      then consider (a) "sublist t old" | (b) "sublist t s'"
        | (c) t1 t2 where "t = t1 @ t2" "suffix t1 old" "prefix t2 s'" "t1 \<noteq> []"
      proof (elim disjE exE conjE)
        fix t1 t2
        assume h: "t = t1 @ t2" "suffix t1 old" "prefix t2 s'"
        assume b: "sublist t s' \<Longrightarrow> thesis"
          and c: "\<And>t1 t2. t = t1 @ t2 \<Longrightarrow> suffix t1 old \<Longrightarrow> prefix t2 s' \<Longrightarrow> t1 \<noteq> [] \<Longrightarrow> thesis"
        show thesis
        proof (cases "t1 = []")
          case True
          with h have "sublist t s'" using prefix_imp_sublist by simp
          then show thesis by (rule b)
        next
          case False
          with h show thesis by (rule c)
        qed
      qed
      then show ?thesis
      proof cases
        case a
        have "sublist old (ins @ old @ ?R s')" by (rule sublist_appendI)
        with a show ?thesis unfolding R
          by (rule sublist_order.order_trans)
      next
        case b
        then have "sublist t (?R s')" using "1.IH" len by blast
        moreover have "sublist (?R s') ((ins @ old) @ ?R s')" by (rule sublist_append_leftI)
        ultimately have "sublist t ((ins @ old) @ ?R s')" by (rule sublist_order.order_trans)
        then show ?thesis unfolding R by simp
      next
        case c
        from c(3) obtain rest where s': "s' = t2 @ rest" by (auto simp: prefix_def)
        from c(2) obtain o1 where o: "old = o1 @ t1" by (auto simp: suffix_def)
        have "t2 = drop (length t1) t" using c(1) by simp
        also have "\<dots> = drop (length t1 - 1) (tl t)"
          using c(4) by (cases t; cases t1) (simp_all add: drop_Cons')
        finally have "starts_free old t2"
          using starts_free_drop[OF assms(2)] by simp
        then have "?R s' = t2 @ ?R rest"
          unfolding s' by (rule str_replace_starts_free[OF assms(1)])
        then have "?R s = (ins @ o1) @ t @ ?R rest"
          unfolding R c(1) by (simp add: o)
        then show ?thesis using sublist_appendI[of t "ins @ o1" "?R rest"] by simp
      qed
    qed
  qed
qed

lemma css_starts_free: "starts_free ''</body>'' (tl aos_css_fix)"
  by code_simp

lemma body_starts_free: "starts_free ''</head>'' (tl ''</body>'')"
  by code_simp

lemma apply_fixes_css:
  assumes "sublist ''</head>'' html"
  shows "sublist aos_css_fix (apply_fixes html)"
proof -
  let ?h1 = "str_replace ''</head>'' (aos_css_fix @ ''\<newline></head>'') html"
  from str_replace_first[of "''</head>''" html "aos_css_fix @ ''\<newline></head>''"] assms
  obtain pre rest where "?h1 = pre @ (aos_css_fix @ ''\<newline></head>'') @ rest"
    by auto
  then have "?h1 = pre @ aos_css_fix @ (''\<newline></head>'' @ rest)" by simp
  then have h1: "sublist aos_css_fix ?h1" by (metis sublist_appendI)
  have "sublist aos_css_fix (str_replace ''</body>'' ((aos_js_fix @ ''\<newline>'') @ ''</body>'') ?h1)"
    by (rule str_replace_keeps[OF _ css_starts_free h1]) simp
  then have "sublist aos_css_fix (str_replace ''</body>'' (aos_js_fix @ ''\<newline></body>'') ?h1)"
    by simp
  with h1 assms show ?thesis by (simp add: apply_fixes_def Let_def)
qed

lemma apply_fixes_js:
  assumes "sublist ''</body>'' html"
  shows "sublist aos_js_fix (apply_fixes html)"
proof -
  define h1 where "h1 = (if sublist ''</head>'' html
                   then str_replace ''</head>'' (aos_css_fix @ ''\<newline></head>'') html
                   else html)"
  have "sublist ''</body>'' (str_replace ''</head>'' ((aos_css_fix @ ''\<newline>'') @ ''</head>'') html)"
    by (rule str_replace_keeps[OF _ body_starts_free assms]) simp
  then have "sublist ''</body>'' (str_replace ''</head>'' (aos_css_fix @ ''\<newline></head>'') html)"
    by simp
  with assms have b: "sublist ''</body>'' h1" by (simp add: h1_def)
  from str_replace_first[of "''</body>''" h1 "aos_js_fix @ ''\<newline></body>''"] b
  obtain pre rest where
    "str_replace ''</body>'' (aos_js_fix @ ''\<newline></body>'') h1
       = pre @ (aos_js_fix @ ''\<newline></body>'') @ rest"
    by auto
  then have "str_replace ''</body>'' (aos_js_fix @ ''\<newline></body>'') h1
       = pre @ aos_js_fix @ (''\<newline></body>'' @ rest)" by simp
  then have "sublist aos_js_fix (str_replace ''</body>'' (aos_js_fix @ ''\<newline></body>'') h1)"
    by (metis sublist_appendI)
  moreover have "apply_fixes html =
      (if sublist ''</body>'' h1
       then str_replace ''</body>'' (aos_js_fix @ ''\<newline></body>'') h1 else h1)"
    unfolding apply_fixes_def Let_def h1_def ..
  ultimately show ?thesis using b by simp
qed

lemma apply_fixes_id:
  "\<not> sublist ''</head>'' html \<Longrightarrow> \<not> sublist ''</body>'' html \<Longrightarrow> apply_fixes html = html"
  by (simp add: apply_fixes_def)

subsection \<open>The generation prompt\<close>

text \<open>The fixed text of the prompt template, around its two insertions.\<close>

definition generation_prompt_head :: string where
  \<open>generation_prompt_head =
     ''You are an elite frontend developer. Generate a COMPLETE, PRODUCTION-READY index.html portfolio.\<newline>'' @
     ''\<newline>''\<close>

definition generation_prompt_middle :: string where
  \<open>generation_prompt_middle =
     ''\<newline>'' @
     ''\<newline>'' @
     ''## ORIGINAL CV TEXT (FOR VERIFICATION - USE EXACT DATA):\<newline>'' @
     ''```\<newline>''\<close>

definition generation_prompt_tail :: string where
  \<open>generation_prompt_tail =
     ''\<newline>'' @
     ''```\<newline>'' @
     ''\<newline>'' @
     ''## CRITICAL: AOS VISIBILITY FIX\<newline>'' @
     ''The page MUST NOT be black. Include these MANDATORY fixes:\<newline>'' @
     ''\<newline>'' @
     ''### 1. CSS Fallback (in <style> tag):\<newline>'' @
     ''```css\<newline>'' @
     ''/* AOS Fallback - Prevent black screen */\<newline>'' @
     ''[data-aos] {\<newline>'' @
     ''    opacity: 1 !important;\<newline>'' @
     ''    transform: none !important;\<newline>'' @
     ''    transition: opacity 0.6s ease, transform 0.6s ease;\<newline>'' @
     ''}\<newline>'' @
     ''.aos-animate {\<newline>'' @
     ''    pointer-events: auto;\<newline>'' @
     ''}\<newline>'' @
     ''/* Ensure visibility before JS loads */\<newline>'' @
     ''body {\<newline>'' @
     ''    opacity: 1;\<newline>'' @
     ''}\<newline>'' @
     ''```\<newline>'' @
     ''\<newline>'' @
     ''### 2. Proper Script Loading (at end of body):\<newline>'' @
     ''```html\<newline>'' @
     ''<script src="https://unpkg.com/aos@2.3.1/dist/aos.js"></script>\<newline>'' @
     ''<script src="https://unpkg.com/lucide@latest/dist/umd/lucide.js"></script>\<newline>'' @
     ''<script>\<newline>'' @
     ''    window.addEventListener(\'load\', function() {\<newline>'' @
     ''        // Initialize Lucide icons\<newline>'' @
     ''        if (typeof lucide !== \'undefined\') {\<newline>'' @
     ''            lucide.createIcons();\<newline>'' @
     ''        }\<newline>'' @
     ''        \<newline>'' @
     ''        // Initialize AOS with safe settings\<newline>'' @
     ''        if (typeof AOS !== \'undefined\') {\<newline>'' @
     ''            AOS.init({\<newline>'' @
     ''                duration: 800,\<newline>'' @
     ''                once: true,\<newline>'' @
     ''                offset: 50,\<newline>'' @
     ''                disable: \'mobile\'\<newline>'' @
     ''            });\<newline>'' @
     ''        }\<newline>'' @
     ''        \<newline>'' @
     ''        // Fallback: ensure all elements visible after 1 second\<newline>'' @
     ''        setTimeout(function() {\<newline>'' @
     ''            document.querySelectorAll(\'[data-aos]\').forEach(function(el) {\<newline>'' @
     ''                el.classList.add(\'aos-animate\');\<newline>'' @
     ''            });\<newline>'' @
     ''        }, 1000);\<newline>'' @
     ''    });\<newline>'' @
     ''</script>\<newline>'' @
     ''```\<newline>'' @
     ''\<newline>'' @
     ''## TECHNICAL STACK:\<newline>'' @
     ''- Tailwind CSS: <script src="https://cdn.tailwindcss.com"></script>\<newline>'' @
     ''- AOS.js: <link href="https://unpkg.com/aos@2.3.1/dist/aos.css" rel="stylesheet">\<newline>'' @
     ''- Lucide Icons: Use <i data-lucide="icon-name"></i>\<newline>'' @
     ''- Google Fonts: Inter + Space Grotesk\<newline>'' @
     ''\<newline>'' @
     ''## DESIGN: VERCEL-STYLE BENTO GRID\<newline>'' @
     ''\<newline>'' @
     ''### Layout Structure:\<newline>'' @
     ''```html\<newline>'' @
     ''<div class="grid grid-cols-12 gap-4 p-4">\<newline>'' @
     ''    <!-- Hero: spans full width -->\<newline>'' @
     ''    <div class="col-span-12">...</div>\<newline>'' @
     ''    \<newline>'' @
     ''    <!-- About: 8 cols, Skills: 4 cols -->\<newline>'' @
     ''    <div class="col-span-12 md:col-span-8">...</div>\<newline>'' @
     ''    <div class="col-span-12 md:col-span-4">...</div>\<newline>'' @
     ''    \<newline>'' @
     ''    <!-- Projects: varying spans (6, 4, 8, etc.) -->\<newline>'' @
     ''    <div class="col-span-12 md:col-span-6">...</div>\<newline>'' @
     ''    <div class="col-span-12 md:col-span-6">...</div>\<newline>'' @
     ''</div>\<newline>'' @
     ''```\<newline>'' @
     ''\<newline>'' @
     ''### Theme: PITCH BLACK + EMERALD\<newline>'' @
     ''- Background: #000000 (pure black)\<newline>'' @
     ''- Cards: bg-white/5 backdrop-blur-md border border-white/10 rounded-2xl\<newline>'' @
     ''- Text: text-white, text-gray-400\<newline>'' @
     ''- Accent: text-emerald-400, bg-emerald-500/10, border-emerald-500/30\<newline>'' @
     ''- Hover: hover:bg-white/10 hover:border-emerald-500/50\<newline>'' @
     ''\<newline>'' @
     ''### Card Style:\<newline>'' @
     ''```html\<newline>'' @
     ''<div class="bg-white/5 backdrop-blur-md border border-white/10 rounded-2xl p-6 \<newline>'' @
     ''            hover:bg-white/10 hover:border-emerald-500/50 transition-all duration-300"\<newline>'' @
     ''     data-aos="fade-up">\<newline>'' @
     ''    <!-- content -->\<newline>'' @
     ''</div>\<newline>'' @
     ''```\<newline>'' @
     ''\<newline>'' @
     ''## SECTIONS:\<newline>'' @
     ''1. **Hero**: Name (large), exact title from CV, tagline, social icons\<newline>'' @
     ''2. **About**: Bio card (col-span-8)\<newline>'' @
     ''3. **Skills**: Grouped skill tags (col-span-4)\<newline>'' @
     ''4. **Projects**: Bento cards with EXACT project names, descriptions, tech stacks\<newline>'' @
     ''5. **Experience**: Timeline with EXACT roles and dates\<newline>'' @
     ''6. **Contact**: Footer with real links\<newline>'' @
     ''\<newline>'' @
     ''## ABSOLUTE RULES:\<newline>'' @
     ''1. Use ONLY the exact data provided - NO PLACEHOLDERS\<newline>'' @
     ''2. NO <img> tags - Lucide icons only\<newline>'' @
     ''3. If title is "Junior Game Developer", use that EXACTLY\<newline>'' @
     ''4. All links must be real URLs from the data\<newline>'' @
     ''5. Include the AOS visibility fixes EXACTLY as shown above\<newline>'' @
     ''6. Start with <!DOCTYPE html>, end with </html>\<newline>'' @
     ''\<newline>'' @
     ''Generate the COMPLETE HTML now.''\<close>

text \<open>The truth value Python gives a value (\<open>if v:\<close>).\<close>

fun truthy :: "json \<Rightarrow> bool" where
  "truthy JNull = False"
| "truthy (JBool b) = b"
| "truthy (JInt i) = (i \<noteq> 0)"
| "truthy (JFloat f) = (case f of FloatFinite sign m e \<Rightarrow> m \<noteq> 0 | _ \<Rightarrow> True)"
| "truthy (JStr s) = (s \<noteq> [])"
| "truthy (JArr xs) = (xs \<noteq> [])"
| "truthy (JObj kvs) = (kvs \<noteq> [])"

text \<open>A value inside an f-string: a string stands for itself, any other value for what
  Python's \<open>str\<close> gives, which is a parameter.\<close>

definition format_value :: "(json \<Rightarrow> string) \<Rightarrow> json \<Rightarrow> string" where
  "format_value py_str v = (case v of JStr s \<Rightarrow> s | _ \<Rightarrow> py_str v)"

text \<open>\<open>_build_prompt\<close>. \<open>dumps\<close> is \<open>json.dumps(_, indent=2, ensure_ascii=False)\<close> of the
  standard library.\<close>

definition build_prompt ::
  "(json \<Rightarrow> string) \<Rightarrow> (json \<Rightarrow> string) \<Rightarrow> CVData \<Rightarrow> string \<Rightarrow> string" where
  "build_prompt dumps py_str cv_data original_text =
     (let data_section =
            (if truthy (raw_analysis cv_data)
             then ''## ANALYZED CV DATA:\<newline>'' @ format_value py_str (raw_analysis cv_data)
             else ''## PORTFOLIO DATA (JSON):\<newline>```json\<newline>'' @
                  dumps (JObj (to_dict cv_data)) @ ''\<newline>```'')
      in generation_prompt_head @ data_section @ generation_prompt_middle @
         take 2000 original_text @ generation_prompt_tail)"

section \<open>ILLMService (src/interfaces/llm_service.py)\<close>

text \<open>\<open>0.3\<close> and \<open>0.2\<close> as the doubles Python reads them.\<close>

definition float_0_3 :: pyfloat where
  "float_0_3 = FloatFinite False 5404319552844595 (- 54)"

definition float_0_2 :: pyfloat where
  "float_0_2 = FloatFinite False 3602879701896397 (- 54)"

record LLMConfig =
  temperature :: pyfloat
  max_tokens :: int
  context_window :: int

definition LLMConfig_default :: LLMConfig where
  "LLMConfig_default = \<lparr>temperature = float_0_3, max_tokens = 4096, context_window = 8192\<rparr>"

text \<open>\<open>content\<close> is annotated \<open>str\<close>; the service fills it with what the runtime's
  response holds.\<close>

record LLMResponse =
  content :: json
  model :: string
  success :: bool
  error :: "string option"

type_synonym message = "(string \<times> string) list"

text \<open>The two operations of the interface that the analyzer and the generator call, on
  a service with state \<open>'s\<close>.\<close>

record 's llm_service =
  chat :: "message list \<Rightarrow> string \<Rightarrow> LLMConfig \<Rightarrow> 's \<Rightarrow> LLMResponse \<times> 's"
  unload_model :: "string \<Rightarrow> 's \<Rightarrow> bool \<times> 's"

text \<open>An optional string inside an f-string.\<close>

definition format_optional :: "string option \<Rightarrow> string" where
  "format_optional e = (case e of None \<Rightarrow> ''None'' | Some s \<Rightarrow> s)"

section \<open>DeepSeekAnalyzer (src/services/deepseek_analyzer.py)\<close>

definition analysis_prompt_head :: string where
  \<open>analysis_prompt_head =
     ''You are a precise CV data extractor. Your job is to extract ONLY what exists in the CV text below.\<newline>'' @
     ''\<newline>'' @
     ''## RAW CV TEXT (THIS IS YOUR ONLY SOURCE OF TRUTH):\<newline>'' @
     ''---\<newline>''\<close>

definition analysis_prompt_tail :: string where
  \<open>analysis_prompt_tail =
     ''\<newline>'' @
     ''---\<newline>'' @
     ''\<newline>'' @
     ''## CRITICAL ANTI-HALLUCINATION RULES:\<newline>'' @
     ''1. **EXACT TEXT ONLY**: Copy titles, names, dates EXACTLY as written in the CV\<newline>'' @
     ''2. **NO INVENTION**: Do NOT invent years of experience, degrees, or titles\<newline>'' @
     ''3. **NO ASSUMPTIONS**: If the CV says "Junior Game Developer", output "Junior Game Developer" - NOT "Senior" or "Lead"\<newline>'' @
     ''4. **DATES**: Use exact date ranges from CV. If CV says "2023-Present", use that exactly\<newline>'' @
     ''5. **PROJECTS**: Use the EXACT project names (e.g., "ROWA Space Station", "Untouchables")\<newline>'' @
     ''6. **VALIDATION**: If you\'re unsure, set "uncertain": true and copy raw text\<newline>'' @
     ''\<newline>'' @
     ''## EXTRACTION TASK:\<newline>'' @
     ''Extract the following into JSON. Use null for missing fields. DO NOT GUESS.\<newline>'' @
     ''\<newline>'' @
     ''```json\<newline>'' @
     ''{\<newline>'' @
     ''    "validation": {\<newline>'' @
     ''        "source": "Extracted from provided CV text only",\<newline>'' @
     ''        "hallucination_check": "All data verified against source text"\<newline>'' @
     ''    },\<newline>'' @
     ''    "personal": {\<newline>'' @
     ''        "name": "EXACT full name from CV",\<newline>'' @
     ''        "title": "EXACT job title from CV (e.g., \'Junior Game Developer\' - no modifications)",\<newline>'' @
     ''        "tagline": "Brief tagline based on actual CV content",\<newline>'' @
     ''        "bio": "2-3 sentences using ONLY facts from CV",\<newline>'' @
     ''        "email": "exact email or null",\<newline>'' @
     ''        "phone": "exact phone or null",\<newline>'' @
     ''        "location": "exact location or null"\<newline>'' @
     ''    },\<newline>'' @
     ''    "links": {\<newline>'' @
     ''        "linkedin": "exact LinkedIn URL or null",\<newline>'' @
     ''        "github": "exact GitHub URL or null",\<newline>'' @
     ''        "website": "exact website URL or null",\<newline>'' @
     ''        "other": ["any other URLs found"]\<newline>'' @
     ''    },\<newline>'' @
     ''    "experience": [\<newline>'' @
     ''        {\<newline>'' @
     ''            "company": "EXACT company name",\<newline>'' @
     ''            "role": "EXACT job title from CV",\<newline>'' @
     ''            "period": "EXACT date range from CV",\<newline>'' @
     ''            "description": "Summary using ONLY CV content",\<newline>'' @
     ''            "highlights": ["actual achievements from CV"]\<newline>'' @
     ''        }\<newline>'' @
     ''    ],\<newline>'' @
     ''    "projects": [\<newline>'' @
     ''        {\<newline>'' @
     ''            "name": "EXACT project name (e.g., \'ROWA Space Station\')",\<newline>'' @
     ''            "description": "Description using ONLY CV content",\<newline>'' @
     ''            "tech_stack": ["technologies mentioned in CV"],\<newline>'' @
     ''            "link": "project URL if in CV, else null",\<newline>'' @
     ''            "type": "Game/Web/App based on CV"\<newline>'' @
     ''        }\<newline>'' @
     ''    ],\<newline>'' @
     ''    "education": [\<newline>'' @
     ''        {\<newline>'' @
     ''            "institution": "EXACT school name",\<newline>'' @
     ''            "degree": "EXACT degree/program name",\<newline>'' @
     ''            "period": "EXACT date range"\<newline>'' @
     ''        }\<newline>'' @
     ''    ],\<newline>'' @
     ''    "skills": {\<newline>'' @
     ''        "languages": ["programming languages from CV"],\<newline>'' @
     ''        "frameworks": ["frameworks from CV"],\<newline>'' @
     ''        "tools": ["tools from CV"],\<newline>'' @
     ''        "specialties": ["specialties from CV"]\<newline>'' @
     ''    },\<newline>'' @
     ''    "certifications": ["EXACT certification names"],\<newline>'' @
     ''    "languages_spoken": ["languages from CV"]\<newline>'' @
     ''}\<newline>'' @
     ''```\<newline>'' @
     ''\<newline>'' @
     ''IMPORTANT: Output ONLY the JSON. No explanations. Use EXACT text from CV.''\<close>

definition analyzer_build_prompt :: "string \<Rightarrow> string" where
  "analyzer_build_prompt cv_text = analysis_prompt_head @ cv_text @ analysis_prompt_tail"

text \<open>\<open>analyze\<close>. A failed request unloads the model and raises \<open>AnalysisError\<close>. A
  response whose content is not a string makes \<open>re.sub\<close> raise \<open>TypeError\<close>. When no
  dict is extracted, or an empty one, the record holds the response as raw analysis.
  An exception of \<open>extract_json\<close> or of \<open>from_dict\<close> leaves \<open>analyze\<close> before the model
  is unloaded.\<close>

definition analyze ::
  "'s llm_service \<Rightarrow> json_loads \<Rightarrow> string \<Rightarrow> pyfloat \<Rightarrow> string \<Rightarrow> 's
     \<Rightarrow> (py_error + CVData) \<times> 's" where
  "analyze llm loads model_name temp cv_text st =
     (let prompt = analyzer_build_prompt cv_text;
          config = \<lparr>temperature = temp, max_tokens = 4096, context_window = 8192\<rparr>;
          (response, st1) = chat llm [[(''role'', ''user''), (''content'', prompt)]]
                              model_name config st
      in if \<not> success response then
           (let (unloaded, st2) = unload_model llm model_name st1
            in (Inl (AnalysisError (''LLM request failed: '' @ format_optional (error response))),
                st2))
         else
           (case content response of
              JStr text \<Rightarrow>
                (let built =
                       (case extract_json loads text of
                          Inl e \<Rightarrow> Inl e
                        | Inr None \<Rightarrow>
                            Inr (CVData_default\<lparr>raw_analysis := content response,
                                                 original_cv_text := cv_text\<rparr>)
                        | Inr (Some d) \<Rightarrow>
                            if d = [] then
                              Inr (CVData_default\<lparr>raw_analysis := content response,
                                                   original_cv_text := cv_text\<rparr>)
                            else from_dict d cv_text)
                 in case built of
                      Inl e \<Rightarrow> (Inl e, st1)
                    | Inr cv_data \<Rightarrow>
                        (let (unloaded, st2) = unload_model llm model_name st1
                         in (Inr cv_data, st2)))
            | _ \<Rightarrow> (Inl TypeError, st1)))"

section \<open>QwenPortfolioGenerator.generate\<close>

definition generate ::
  "'s llm_service \<Rightarrow> (json \<Rightarrow> string) \<Rightarrow> (json \<Rightarrow> string) \<Rightarrow> string \<Rightarrow> pyfloat
     \<Rightarrow> CVData \<Rightarrow> string \<Rightarrow> 's \<Rightarrow> (py_error + string) \<times> 's" where
  "generate llm dumps py_str model_name temp cv_data original_text0 st =
     (let original_text =
            (if original_text0 = [] then original_cv_text cv_data else original_text0);
          prompt = build_prompt dumps py_str cv_data original_text;
          config = \<lparr>temperature = temp, max_tokens = 4096, context_window = 8192\<rparr>;
          (response, st1) = chat llm [[(''role'', ''user''), (''content'', prompt)]]
                              model_name config st
      in if \<not> success response then
           (let (unloaded, st2) = unload_model llm model_name st1
            in (Inl (GenerationError
                      (''LLM request failed: '' @ format_optional (error response))),
                st2))
         else
           (case content response of
              JStr text \<Rightarrow>
                (let html_content = extract_html text;
                     html_fixed =
                       (if \<not> sublist ''aos-animate'' (lower html_content)
                        then apply_fixes html_content else html_content);
                     (unloaded, st2) = unload_model llm model_name st1
                 in (Inr html_fixed, st2))
            | _ \<Rightarrow> (Inl TypeError, st1)))"

section \<open>Services for stating the claims\<close>

text \<open>A service whose \<open>chat\<close> gives the same response to every request.\<close>

definition chat_returns :: "'s llm_service \<Rightarrow> LLMResponse \<Rightarrow> bool" where
  "chat_returns llm resp = (\<forall>msgs m cfg s. fst (chat llm msgs m cfg s) = resp)"

text \<open>A service whose \<open>chat\<close> always gives a failure result.\<close>

definition chat_fails :: "'s llm_service \<Rightarrow> bool" where
  "chat_fails llm = (\<forall>msgs m cfg s. \<not> success (fst (chat llm msgs m cfg s)))"

text \<open>The calls a service receives, and the service that records them in its state.\<close>

datatype llm_call = CallChat "message list" string LLMConfig | CallUnload string

definition logged :: "'s llm_service \<Rightarrow> ('s \<times> llm_call list) llm_service" where
  "logged llm =
     \<lparr>chat = (\<lambda>msgs m cfg (s, calls).
                (fst (chat llm msgs m cfg s),
                 (snd (chat llm msgs m cfg s), calls @ [CallChat msgs m cfg]))),
      unload_model = (\<lambda>m (s, calls).
                (fst (unload_model llm m s),
                 (snd (unload_model llm m s), calls @ [CallUnload m])))\<rparr>"

text \<open>A stateless service that answers every request with \<open>resp\<close>.\<close>

definition reply_service :: "LLMResponse \<Rightarrow> unit llm_service" where
  "reply_service resp =
     \<lparr>chat = (\<lambda>msgs m cfg s. (resp, s)), unload_model = (\<lambda>m s. (True, s))\<rparr>"

lemma chat_returns_reply: "chat_returns (reply_service resp) resp"
  by (simp add: chat_returns_def reply_service_def)

lemma generate_success:
  assumes "chat_returns llm resp" "success resp" "content resp = JStr reply_text"
  shows "fst (generate llm dumps py_str m temp cv orig st) =
           Inr (if \<not> sublist ''aos-animate'' (lower (extract_html reply_text))
                then apply_fixes (extract_html reply_text) else extract_html reply_text)"
proof -
  obtain r1 s1 where c: "chat llm [[(''role'', ''user''), (''content'',
        build_prompt dumps py_str cv (if orig = [] then original_cv_text cv else orig))]]
        m \<lparr>temperature = temp, max_tokens = 4096, context_window = 8192\<rparr> st = (r1, s1)"
    by (cases "chat llm [[(''role'', ''user''), (''content'',
        build_prompt dumps py_str cv (if orig = [] then original_cv_text cv else orig))]]
        m \<lparr>temperature = temp, max_tokens = 4096, context_window = 8192\<rparr> st")
  with assms(1) have "r1 = resp" unfolding chat_returns_def by (metis fst_conv)
  with assms(2,3) c show ?thesis
    by (simp add: generate_def Let_def split: prod.splits)
qed

text \<open>
  Claim C2, as the code has it. \<open>apply_fixes\<close> looks for the closing tags, not for the
  marker: markup that contains \<open></head>\<close> comes back with the style block in it, markup
  that contains \<open></body>\<close> comes back with the script block in it, and markup with
  neither tag comes back unchanged. The marker is tested by \<open>generate\<close>: markup that
  already holds \<open>aos-animate\<close> (in any case) is returned as extracted, and only markup
  without it is passed through \<open>apply_fixes\<close>.
\<close>

theorem apply_fixes_injects:
  "(sublist ''</head>'' html \<longrightarrow> sublist aos_css_fix (apply_fixes html)) \<and>
   (sublist ''</body>'' html \<longrightarrow> sublist aos_js_fix (apply_fixes html)) \<and>
   (\<not> sublist ''</head>'' html \<and> \<not> sublist ''</body>'' html \<longrightarrow> apply_fixes html = html) \<and>
   (chat_returns llm resp \<and> success resp \<and> content resp = JStr reply_text \<and>
      sublist ''aos-animate'' (lower (extract_html reply_text)) \<longrightarrow>
        fst (generate llm dumps py_str m temp cv orig st) = Inr (extract_html reply_text)) \<and>
   (chat_returns llm resp \<and> success resp \<and> content resp = JStr reply_text \<and>
      \<not> sublist ''aos-animate'' (lower (extract_html reply_text)) \<longrightarrow>
        fst (generate llm dumps py_str m temp cv orig st) = Inr (apply_fixes (extract_html reply_text)))"
  using apply_fixes_css apply_fixes_js apply_fixes_id generate_success[of llm resp reply_text]
  by simp

definition page_with_tags :: string where
  "page_with_tags = ''<!DOCTYPE html><html><head></head><body></body></html>''"

theorem apply_fixes_injects_witness:
  "sublist ''</head>'' page_with_tags \<and> sublist ''</body>'' page_with_tags \<and>
   sublist aos_css_fix (apply_fixes page_with_tags) \<and>
   sublist aos_js_fix (apply_fixes page_with_tags) \<and>
   \<not> sublist ''</head>'' ''<p>hi</p>'' \<and> \<not> sublist ''</body>'' ''<p>hi</p>'' \<and>
   apply_fixes ''<p>hi</p>'' = ''<p>hi</p>'' \<and>
   fst (generate (reply_service \<lparr>content = JStr page_with_tags, model = ''m'', success = True,
                                 error = None\<rparr>)
          (\<lambda>_. []) (\<lambda>_. []) ''m'' float_0_2 CVData_default [] ())
     = Inr (apply_fixes page_with_tags)"
proof -
  have h: "sublist ''</head>'' page_with_tags" "sublist ''</body>'' page_with_tags"
    "\<not> sublist ''</head>'' ''<p>hi</p>''" "\<not> sublist ''</body>'' ''<p>hi</p>''"
    by code_simp+
  have e: "extract_html page_with_tags = page_with_tags" by code_simp
  have n: "\<not> sublist ''aos-animate'' (lower page_with_tags)" by code_simp
  let ?R = "\<lparr>content = JStr page_with_tags, model = ''m'', success = True, error = None\<rparr>"
  note t = apply_fixes_injects
    [where html = page_with_tags and llm = "reply_service ?R" and resp = ?R
       and reply_text = page_with_tags and dumps = "\<lambda>_. []" and py_str = "\<lambda>_. []"
       and m = "''m''" and temp = float_0_2 and cv = CVData_default and orig = "[]"
       and st = "()"]
  note u = apply_fixes_injects
    [where html = "''<p>hi</p>''" and llm = "reply_service ?R" and resp = ?R
       and reply_text = page_with_tags and dumps = "\<lambda>_. []" and py_str = "\<lambda>_. []"
       and m = "''m''" and temp = float_0_2 and cv = CVData_default and orig = "[]"
       and st = "()"]
  from t h(1) have 1: "sublist aos_css_fix (apply_fixes page_with_tags)" by simp
  from t h(2) have c1b: "sublist aos_js_fix (apply_fixes page_with_tags)" by simp
  from u h(3,4) have 2: "apply_fixes ''<p>hi</p>'' = ''<p>hi</p>''" by simp
  have 3: "fst (generate (reply_service ?R)
          (\<lambda>_. []) (\<lambda>_. []) ''m'' float_0_2 CVData_default [] ())
     = Inr (apply_fixes page_with_tags)"
    using t chat_returns_reply[of ?R] e n by simp
  from h 1 c1b 2 3 show ?thesis by blast
qed

text \<open>
  Claim C2 as stated fails on both halves: markup without the marker and without the
  closing tags gets neither block, and markup that holds the marker and the closing
  tags is changed by \<open>apply_fixes\<close>.
\<close>

definition page_with_marker :: string where
  \<open>page_with_marker = ''<head></head><body class="aos-animate"></body>''\<close>

theorem apply_fixes_marker_counterexample:
  "\<not> sublist ''aos-animate'' (lower ''<p>hi</p>'') \<and>
   \<not> sublist aos_css_fix (apply_fixes ''<p>hi</p>'') \<and>
   \<not> sublist aos_js_fix (apply_fixes ''<p>hi</p>'') \<and>
   sublist ''aos-animate'' (lower page_with_marker) \<and>
   apply_fixes page_with_marker \<noteq> page_with_marker"
proof -
  have "\<not> sublist ''aos-animate'' (lower ''<p>hi</p>'')" by code_simp
  moreover have "\<not> sublist aos_css_fix (apply_fixes ''<p>hi</p>'')" by code_simp
  moreover have "\<not> sublist aos_js_fix (apply_fixes ''<p>hi</p>'')" by code_simp
  moreover have "sublist ''aos-animate'' (lower page_with_marker)" by code_simp
  moreover have "length (apply_fixes page_with_marker) \<noteq> length page_with_marker"
    by code_simp
  then have "apply_fixes page_with_marker \<noteq> page_with_marker" by auto
  ultimately show ?thesis by blast
qed

lemma fenced_json_at_exact:
  assumes "tag = [] \<or> tag = ''json''" "list_all is_space ws1" "list_all is_space ws2"
    "CHR 0x60 \<notin> set a"
  shows "fenced_json_at (''```'' @ tag @ ws1 @ (CHR ''{'' # a @ [CHR ''}'']) @ ws2 @ ''```'' @ post)
         = Some (CHR ''{'' # a @ [CHR ''}''])"
proof -
  let ?rest = "ws2 @ ''```'' @ post"
  let ?g = "CHR ''{'' # a @ [CHR ''}'']"
  let ?r1 = "ws1 @ ?g @ ?rest"
  have nsp: "\<not> is_space (CHR ''{'')" by (simp add: is_space_def)
  have sk: "skip_spaces ?r1 = CHR ''{'' # (a @ CHR ''}'' # ?rest)"
    using skip_spaces_append[OF assms(2) nsp] by simp
  have np: "\<not> prefix ''json'' ?r1"
  proof (cases ws1)
    case Nil
    then show ?thesis by simp
  next
    case (Cons w ws)
    with assms(2) have "is_space w" by simp
    then have "w \<noteq> CHR ''j''" by (auto simp: is_space_def)
    with Cons show ?thesis by simp
  qed
  have e2: "(if prefix ''json'' (tag @ ?r1) then drop 4 (tag @ ?r1) else tag @ ?r1) = ?r1"
    using assms(1) np by auto
  have e1: "drop 3 (''```'' @ tag @ ?r1) = tag @ ?r1" by simp
  have pre: "prefix ''```'' (''```'' @ tag @ ?r1)" by simp
  have body: "lazy_json_body (a @ CHR ''}'' # ?rest) = Some (a @ [CHR ''}''])"
    using lazy_json_body_exact[OF assms(4,3)] .
  have "fenced_json_at (''```'' @ tag @ ?r1) =
          (case skip_spaces ?r1 of [] \<Rightarrow> None
           | c # body \<Rightarrow> if c = CHR ''{'' then map_option ((#) c) (lazy_json_body body) else None)"
    unfolding fenced_json_at_def Let_def e1 e2 by (simp only: pre if_True)
  also have "\<dots> = Some ?g"
    unfolding sk using body by simp
  finally show ?thesis .
qed

lemma extract_json_wrapped:
  assumes "\<not> sublist ''</think>'' (r @ ''</think'')"
    and "CHR 0x60 \<notin> set sep"
    and "tag = [] \<or> tag = ''json''" "list_all is_space ws1" "list_all is_space ws2"
    and "CHR 0x60 \<notin> set a"
    and "\<not> sublist ''<think>'' (sep @ ''```'' @ tag @ ws1 @ (CHR ''{'' # a @ [CHR ''}'']) @ ws2 @ ''```'' @ post)"
  shows "extract_json loads
           (''<think>'' @ r @ ''</think>'' @
              sep @ ''```'' @ tag @ ws1 @ (CHR ''{'' # a @ [CHR ''}'']) @ ws2 @ ''```'' @ post)
         = (case loads (CHR ''{'' # a @ [CHR ''}'']) of
              Parsed d \<Rightarrow> Inr (Some d)
            | JSONDecodeError \<Rightarrow>
                (case largest_brace_span
                        (sep @ ''```'' @ tag @ ws1 @ (CHR ''{'' # a @ [CHR ''}'']) @ ws2 @ ''```'' @ post) of
                   Some g \<Rightarrow>
                     (case loads g of
                        Parsed d \<Rightarrow> Inr (Some d)
                      | JSONDecodeError \<Rightarrow> Inr None
                      | OtherError e \<Rightarrow> Inl e)
                 | None \<Rightarrow> Inr None)
            | OtherError e \<Rightarrow> Inl e)"
proof -
  let ?g = "CHR ''{'' # a @ [CHR ''}'']"
  let ?fence = "''```'' @ tag @ ws1 @ ?g @ ws2 @ ''```'' @ post"
  let ?body = "sep @ ?fence"
  have "\<not> sublist ''<think>'' ([] @ ''<think'')" by code_simp
  from strip_think_region[OF this assms(1), of ?body]
  have "strip_think (''<think>'' @ r @ ''</think>'' @ ?body) = strip_think ?body"
    by simp
  also have "\<dots> = ?body" using assms(7) by (rule strip_think_id)
  finally have st: "strip_think (''<think>'' @ r @ ''</think>'' @ ?body) = ?body" .
  have "search_fenced_json ?body = search_fenced_json ?fence"
    using assms(2) by (rule search_fenced_json_skip)
  also have "\<dots> = Some ?g"
  proof -
    obtain c cs where f: "?fence = c # cs" by simp
    have "fenced_json_at ?fence = Some ?g"
      using fenced_json_at_exact[OF assms(3,4,5,6)] .
    then have "search_fenced_json (c # cs) = Some ?g"
      unfolding f by simp
    then show ?thesis unfolding f .
  qed
  finally have sf: "search_fenced_json ?body = Some ?g" .
  show ?thesis
    unfolding extract_json_def Let_def st sf search_braces_eq
    by (simp only: option.case)
qed

text \<open>The record \<open>analyze\<close> builds when no structured data is extracted.\<close>

definition raw_fallback_cv :: "string \<Rightarrow> string \<Rightarrow> CVData" where
  "raw_fallback_cv reply cv_text =
     CVData_default\<lparr>raw_analysis := JStr reply, original_cv_text := cv_text\<rparr>"

lemma analyze_success:
  assumes "chat_returns llm resp" "success resp" "content resp = JStr reply"
  shows "fst (analyze llm loads m temp cv_text st) =
           (case extract_json loads reply of
              Inl e \<Rightarrow> Inl e
            | Inr None \<Rightarrow> Inr (raw_fallback_cv reply cv_text)
            | Inr (Some d) \<Rightarrow> if d = [] then Inr (raw_fallback_cv reply cv_text)
                              else from_dict d cv_text)"
proof -
  obtain r1 s1 where c: "chat llm [[(''role'', ''user''), (''content'', analyzer_build_prompt cv_text)]]
        m \<lparr>temperature = temp, max_tokens = 4096, context_window = 8192\<rparr> st = (r1, s1)"
    by (cases "chat llm [[(''role'', ''user''), (''content'', analyzer_build_prompt cv_text)]]
        m \<lparr>temperature = temp, max_tokens = 4096, context_window = 8192\<rparr> st")
  with assms(1) have "r1 = resp" unfolding chat_returns_def by (metis fst_conv)
  with assms(2,3) c show ?thesis
    by (simp add: analyze_def Let_def raw_fallback_cv_def split: prod.splits option.splits sum.splits)
qed

lemma from_dict_fields:
  assumes "from_dict d cv_text = Inr cv"
  shows "raw_analysis cv = dict_get d ''raw_analysis'' JNull"
    and "map_of d ''personal'' = Some (JObj p) \<Longrightarrow>
           p_name (personal cv) = dict_get p ''name'' (JStr [])"
  using assms
  by (auto simp: from_dict_def section_step_def parse_personal_def split: sum.splits option.splits)

text \<open>The shape of a reply that wraps a fenced object literal in a reasoning preamble:
  the preamble \<open>r\<close> between the markers, a separator, the opening fence with or without
  the \<open>json\<close> tag, whitespace, the object literal \<open>{a}\<close>, whitespace, the closing fence
  and what follows.\<close>

definition wrapped_reply ::
  "string \<Rightarrow> string \<Rightarrow> string \<Rightarrow> string \<Rightarrow> string \<Rightarrow> string \<Rightarrow> string \<Rightarrow> string" where
  "wrapped_reply r sep tag ws1 a ws2 post =
     ''<think>'' @ r @ ''</think>'' @
       sep @ ''```'' @ tag @ ws1 @ (CHR ''{'' # a @ [CHR ''}'']) @ ws2 @ ''```'' @ post"

text \<open>The preamble holds no closing marker, the separator and the object literal hold no
  backtick, and no opening marker follows the preamble.\<close>

definition well_wrapped ::
  "string \<Rightarrow> string \<Rightarrow> string \<Rightarrow> string \<Rightarrow> string \<Rightarrow> string \<Rightarrow> string \<Rightarrow> bool" where
  "well_wrapped r sep tag ws1 a ws2 post =
     (\<not> sublist ''</think>'' (r @ ''</think'') \<and>
      CHR 0x60 \<notin> set sep \<and> (tag = [] \<or> tag = ''json'') \<and>
      list_all is_space ws1 \<and> list_all is_space ws2 \<and> CHR 0x60 \<notin> set a \<and>
      \<not> sublist ''<think>''
          (sep @ ''```'' @ tag @ ws1 @ (CHR ''{'' # a @ [CHR ''}'']) @ ws2 @ ''```'' @ post))"

text \<open>
  Claim C1, as the code has it. For a reply of the shape \<open>wrapped_reply\<close> that is
  \<open>well_wrapped\<close> and whose object literal \<open>json.loads\<close> parses, \<open>extract_json\<close> returns
  exactly the parsed object. When a service returns that reply successfully, the parsed
  object holds \<open>"personal": {"name": "Jane Doe"}\<close> and no \<open>"raw_analysis"\<close> key, and
  \<open>from_dict\<close> accepts it, \<open>analyze\<close> produces the record of \<open>from_dict\<close>, whose personal
  name is \<open>"Jane Doe"\<close> and whose raw analysis is \<open>None\<close>.
\<close>

theorem wrapped_object_extracted:
  "well_wrapped r sep tag ws1 a ws2 post \<and> loads (CHR ''{'' # a @ [CHR ''}'']) = Parsed d \<longrightarrow>
     extract_json loads (wrapped_reply r sep tag ws1 a ws2 post) = Inr (Some d) \<and>
     (chat_returns llm resp \<and> success resp \<and>
      content resp = JStr (wrapped_reply r sep tag ws1 a ws2 post) \<and>
      map_of d ''personal'' = Some (JObj p) \<and> map_of p ''name'' = Some (JStr ''Jane Doe'') \<and>
      map_of d ''raw_analysis'' = None \<and> from_dict d cv_text = Inr cv \<longrightarrow>
        fst (analyze llm loads m temp cv_text st) = Inr cv \<and>
        p_name (personal cv) = JStr ''Jane Doe'' \<and> raw_analysis cv = JNull)"
proof (intro impI conjI)
  assume a: "well_wrapped r sep tag ws1 a ws2 post \<and> loads (CHR ''{'' # a @ [CHR ''}'']) = Parsed d"
  then have w: "\<not> sublist ''</think>'' (r @ ''</think'')" "CHR 0x60 \<notin> set sep"
    "tag = [] \<or> tag = ''json''" "list_all is_space ws1" "list_all is_space ws2"
    "CHR 0x60 \<notin> set a"
    "\<not> sublist ''<think>''
          (sep @ ''```'' @ tag @ ws1 @ (CHR ''{'' # a @ [CHR ''}'']) @ ws2 @ ''```'' @ post)"
    unfolding well_wrapped_def by blast+
  from a have l: "loads (CHR ''{'' # a @ [CHR ''}'']) = Parsed d" by blast
  show e: "extract_json loads (wrapped_reply r sep tag ws1 a ws2 post) = Inr (Some d)"
    unfolding wrapped_reply_def extract_json_wrapped[OF w] l by simp
  assume b: "chat_returns llm resp \<and> success resp \<and>
      content resp = JStr (wrapped_reply r sep tag ws1 a ws2 post) \<and>
      map_of d ''personal'' = Some (JObj p) \<and> map_of p ''name'' = Some (JStr ''Jane Doe'') \<and>
      map_of d ''raw_analysis'' = None \<and> from_dict d cv_text = Inr cv"
  then have ne: "d \<noteq> []" by auto
  from b have b1: "chat_returns llm resp" and b2: "success resp"
    and b3: "content resp = JStr (wrapped_reply r sep tag ws1 a ws2 post)"
    by simp_all
  have "fst (analyze llm loads m temp cv_text st) =
           (case extract_json loads (wrapped_reply r sep tag ws1 a ws2 post) of
              Inl e \<Rightarrow> Inl e
            | Inr None \<Rightarrow> Inr (raw_fallback_cv (wrapped_reply r sep tag ws1 a ws2 post) cv_text)
            | Inr (Some d) \<Rightarrow> if d = []
                then Inr (raw_fallback_cv (wrapped_reply r sep tag ws1 a ws2 post) cv_text)
                else from_dict d cv_text)"
    by (rule analyze_success[OF b1 b2 b3])
  with e ne b show "fst (analyze llm loads m temp cv_text st) = Inr cv" by simp
  from b have fd: "from_dict d cv_text = Inr cv"
    and pn: "map_of d ''personal'' = Some (JObj p)" "map_of p ''name'' = Some (JStr ''Jane Doe'')"
    and nr: "map_of d ''raw_analysis'' = None"
    by simp_all
  show "p_name (personal cv) = JStr ''Jane Doe''"
    using from_dict_fields(2)[OF fd pn(1)] pn(2) by (simp add: dict_get_def)
  show "raw_analysis cv = JNull"
    using from_dict_fields(1)[OF fd] nr by (simp add: dict_get_def)
qed

definition jane_reply :: string where
  \<open>jane_reply =
     ''<think>The CV names Jane Doe.</think>\<newline>'' @
     ''```json\<newline>'' @
     ''{"personal": {"name": "Jane Doe"}}\<newline>'' @
     ''```''\<close>

definition jane_loads :: json_loads where
  \<open>jane_loads =
     loads_table
       [(''{"personal": {"name": "Jane Doe"}}'',
         [(''personal'', JObj [(''name'', JStr ''Jane Doe'')])])]\<close>

definition ok_response :: "string \<Rightarrow> LLMResponse" where
  "ok_response reply =
     \<lparr>content = JStr reply, model = ''deepseek-r1:7b'', success = True, error = None\<rparr>"

theorem wrapped_object_extracted_witness:
  \<open>well_wrapped ''The CV names Jane Doe.'' ''\<newline>'' ''json'' ''\<newline>''
     ''"personal": {"name": "Jane Doe"}'' ''\<newline>'' [] \<and>
   wrapped_reply ''The CV names Jane Doe.'' ''\<newline>'' ''json'' ''\<newline>''
     ''"personal": {"name": "Jane Doe"}'' ''\<newline>'' [] = jane_reply \<and>
   extract_json jane_loads jane_reply
     = Inr (Some [(''personal'', JObj [(''name'', JStr ''Jane Doe'')])]) \<and>
   fst (analyze (reply_service (ok_response jane_reply)) jane_loads ''deepseek-r1:7b'' float_0_3
          ''Jane Doe, developer'' ())
     = Inr (CVData_default
              \<lparr>personal := PersonalInfo_default\<lparr>p_name := JStr ''Jane Doe''\<rparr>,
               original_cv_text := ''Jane Doe, developer''\<rparr>) \<and>
   p_name (personal (CVData_default
              \<lparr>personal := PersonalInfo_default\<lparr>p_name := JStr ''Jane Doe''\<rparr>,
               original_cv_text := ''Jane Doe, developer''\<rparr>)) = JStr ''Jane Doe'' \<and>
   raw_analysis (CVData_default
              \<lparr>personal := PersonalInfo_default\<lparr>p_name := JStr ''Jane Doe''\<rparr>,
               original_cv_text := ''Jane Doe, developer''\<rparr>) = JNull\<close>
proof -
  let ?cv = "CVData_default
              \<lparr>personal := PersonalInfo_default\<lparr>p_name := JStr ''Jane Doe''\<rparr>,
               original_cv_text := ''Jane Doe, developer''\<rparr>"
  let ?d = "[(''personal'', JObj [(''name'', JStr ''Jane Doe'')])]"
  have w: \<open>well_wrapped ''The CV names Jane Doe.'' ''\<newline>'' ''json'' ''\<newline>''
     ''"personal": {"name": "Jane Doe"}'' ''\<newline>'' []\<close>
    by code_simp
  have r: \<open>wrapped_reply ''The CV names Jane Doe.'' ''\<newline>'' ''json'' ''\<newline>''
     ''"personal": {"name": "Jane Doe"}'' ''\<newline>'' [] = jane_reply\<close>
    by (simp add: wrapped_reply_def jane_reply_def)
  have l: \<open>jane_loads (CHR ''{'' # ''"personal": {"name": "Jane Doe"}'' @ [CHR ''}'']) = Parsed ?d\<close>
    by (simp add: jane_loads_def loads_table_def)
  have f: "from_dict ?d ''Jane Doe, developer'' = Inr ?cv"
    by (simp add: from_dict_def section_step_def parse_personal_def dict_get_def
        CVData_default_def PersonalInfo_default_def)
  note t = wrapped_object_extracted
    [where r = "''The CV names Jane Doe.''" and sep = "''\<newline>''" and tag = "''json''"
       and ?ws1.0 = "''\<newline>''" and a = \<open>''"personal": {"name": "Jane Doe"}''\<close>
       and ?ws2.0 = "''\<newline>''" and post = "[]" and loads = jane_loads and d = ?d
       and llm = "reply_service (ok_response jane_reply)" and resp = "ok_response jane_reply"
       and p = "[(''name'', JStr ''Jane Doe'')]" and cv_text = "''Jane Doe, developer''"
       and cv = ?cv and m = "''deepseek-r1:7b''" and temp = float_0_3 and st = "()"]
  from t w l r have e: "extract_json jane_loads jane_reply = Inr (Some ?d)"
    by simp
  from t w l r f chat_returns_reply[of "ok_response jane_reply"]
  have "fst (analyze (reply_service (ok_response jane_reply)) jane_loads ''deepseek-r1:7b''
          float_0_3 ''Jane Doe, developer'' ()) = Inr ?cv \<and>
        p_name (personal ?cv) = JStr ''Jane Doe'' \<and> raw_analysis ?cv = JNull"
    by (simp add: ok_response_def)
  with w r e show ?thesis by blast
qed

text \<open>
  Claim C1 as stated fails: the \<open><think>\<close> regions are removed everywhere, also inside
  a string of the fenced object literal, so the object returned is not the one the
  literal denotes; a fenced object with \<open>"name": "Jane Doe"\<close> at its top level gives a
  record whose personal name is empty, since \<open>from_dict\<close> reads the name under
  \<open>"personal"\<close>; and a fenced block that lies between the markers is removed with the
  preamble, so nothing is extracted.
\<close>

definition think_in_object_reply :: string where
  \<open>think_in_object_reply =
     ''<think>plan</think>```json{"name": "a<think>b</think>c"}```''\<close>

definition think_in_object_loads :: json_loads where
  \<open>think_in_object_loads =
     loads_table
       [(''{"name": "a<think>b</think>c"}'', [(''name'', JStr ''a<think>b</think>c'')]),
        (''{"name": "ac"}'', [(''name'', JStr ''ac'')])]\<close>

definition flat_name_reply :: string where
  \<open>flat_name_reply = ''<think>plan</think>```json{"name": "Jane Doe"}```''\<close>

definition flat_name_loads :: json_loads where
  \<open>flat_name_loads = loads_table [(''{"name": "Jane Doe"}'', [(''name'', JStr ''Jane Doe'')])]\<close>

definition fence_in_think_reply :: string where
  \<open>fence_in_think_reply = ''<think>```json{"personal": {"name": "Jane Doe"}}```</think>''\<close>

theorem wrapped_object_counterexample:
  \<open>think_in_object_loads ''{"name": "a<think>b</think>c"}''
     = Parsed [(''name'', JStr ''a<think>b</think>c'')] \<and>
   extract_json think_in_object_loads think_in_object_reply
     = Inr (Some [(''name'', JStr ''ac'')]) \<and>
   extract_json flat_name_loads flat_name_reply = Inr (Some [(''name'', JStr ''Jane Doe'')]) \<and>
   fst (analyze (reply_service (ok_response flat_name_reply)) flat_name_loads ''deepseek-r1:7b''
          float_0_3 [] ()) = Inr CVData_default \<and>
   p_name (personal CVData_default) = JStr [] \<and>
   jane_loads ''{"personal": {"name": "Jane Doe"}}''
     = Parsed [(''personal'', JObj [(''name'', JStr ''Jane Doe'')])] \<and>
   extract_json jane_loads fence_in_think_reply = Inr None\<close>
proof -
  have \<open>think_in_object_loads ''{"name": "a<think>b</think>c"}''
     = Parsed [(''name'', JStr ''a<think>b</think>c'')]\<close>
    by code_simp
  moreover have \<open>extract_json think_in_object_loads think_in_object_reply
     = Inr (Some [(''name'', JStr ''ac'')])\<close>
    by code_simp
  moreover have e: \<open>extract_json flat_name_loads flat_name_reply
     = Inr (Some [(''name'', JStr ''Jane Doe'')])\<close>
    by code_simp
  moreover have "from_dict [(''name'', JStr ''Jane Doe'')] [] = Inr CVData_default"
    by (simp add: from_dict_def section_step_def dict_get_def CVData_default_def)
  with e have "fst (analyze (reply_service (ok_response flat_name_reply)) flat_name_loads
          ''deepseek-r1:7b'' float_0_3 [] ()) = Inr CVData_default"
    using analyze_success[OF chat_returns_reply, of "ok_response flat_name_reply" flat_name_reply]
    by (simp add: ok_response_def)
  moreover have "p_name (personal CVData_default) = JStr []"
    by (simp add: CVData_default_def PersonalInfo_default_def)
  moreover have \<open>jane_loads ''{"personal": {"name": "Jane Doe"}}''
     = Parsed [(''personal'', JObj [(''name'', JStr ''Jane Doe'')])]\<close>
    by code_simp
  moreover have "extract_json jane_loads fence_in_think_reply = Inr None"
    by code_simp
  ultimately show ?thesis by blast
qed

text \<open>The messages and the configuration of the one request each stage makes.\<close>

definition user_message :: "string \<Rightarrow> message list" where
  "user_message prompt = [[(''role'', ''user''), (''content'', prompt)]]"

definition stage_config :: "pyfloat \<Rightarrow> LLMConfig" where
  "stage_config temp = \<lparr>temperature = temp, max_tokens = 4096, context_window = 8192\<rparr>"

lemma analyze_failure_logged:
  assumes "chat_fails llm"
  shows "\<exists>msg s'. analyze (logged llm) loads m temp cv_text (s, []) =
           (Inl (AnalysisError msg),
            (s', [CallChat (user_message (analyzer_build_prompt cv_text)) m (stage_config temp),
                  CallUnload m]))"
proof -
  let ?msgs = "user_message (analyzer_build_prompt cv_text)"
  let ?cfg = "stage_config temp"
  from assms have "\<not> success (fst (chat llm ?msgs m ?cfg s))"
    unfolding chat_fails_def by blast
  then show ?thesis
    by (simp add: analyze_def logged_def Let_def user_message_def stage_config_def
        split: prod.splits)
qed

text \<open>A successful response on whose text \<open>extract_json\<close> raises: the exception leaves
  \<open>analyze\<close> after the one request, and the model is not unloaded.\<close>

lemma analyze_parser_error_logged:
  assumes "chat_returns llm resp" "success resp" "content resp = JStr reply"
    and "extract_json loads reply = Inl e"
  shows "\<exists>s'. analyze (logged llm) loads m temp cv_text (s, []) =
           (Inl e,
            (s', [CallChat (user_message (analyzer_build_prompt cv_text)) m (stage_config temp)]))"
proof -
  let ?msgs = "user_message (analyzer_build_prompt cv_text)"
  let ?cfg = "stage_config temp"
  from assms(1) have "fst (chat llm ?msgs m ?cfg s) = resp"
    unfolding chat_returns_def by blast
  with assms(2,3,4) show ?thesis
    by (simp add: analyze_def logged_def Let_def user_message_def stage_config_def
        split: prod.splits)
qed

lemma generate_failure_logged:
  assumes "chat_fails llm"
  shows "\<exists>msg s'. generate (logged llm) dumps py_str m temp cv orig (s, []) =
           (Inl (GenerationError msg),
            (s', [CallChat (user_message (build_prompt dumps py_str cv
                              (if orig = [] then original_cv_text cv else orig)))
                    m (stage_config temp),
                  CallUnload m]))"
proof -
  let ?msgs = "user_message (build_prompt dumps py_str cv
                              (if orig = [] then original_cv_text cv else orig))"
  let ?cfg = "stage_config temp"
  from assms have "\<not> success (fst (chat llm ?msgs m ?cfg s))"
    unfolding chat_fails_def by blast
  then show ?thesis
    by (simp add: generate_def logged_def Let_def user_message_def stage_config_def
        split: prod.splits)
qed

text \<open>
  Claim C5. For a service whose \<open>chat\<close> always returns a failure result, \<open>analyze\<close> makes
  one \<open>chat\<close> call, then exactly one \<open>unload_model\<close> call on its model, and raises
  \<open>AnalysisError\<close>; \<open>generate\<close> does the same and raises \<open>GenerationError\<close>. The calls are
  read from the log of the recording service \<open>logged llm\<close>.
\<close>

theorem failure_unloads_once:
  "chat_fails llm \<longrightarrow>
     (\<exists>msg s'. analyze (logged llm) loads m temp cv_text (s, []) =
           (Inl (AnalysisError msg),
            (s', [CallChat (user_message (analyzer_build_prompt cv_text)) m (stage_config temp),
                  CallUnload m]))) \<and>
     (\<exists>msg s'. generate (logged llm) dumps py_str m temp cv orig (s, []) =
           (Inl (GenerationError msg),
            (s', [CallChat (user_message (build_prompt dumps py_str cv
                              (if orig = [] then original_cv_text cv else orig)))
                    m (stage_config temp),
                  CallUnload m])))"
proof (intro impI conjI)
  assume f: "chat_fails llm"
  show "\<exists>msg s'. analyze (logged llm) loads m temp cv_text (s, []) =
           (Inl (AnalysisError msg),
            (s', [CallChat (user_message (analyzer_build_prompt cv_text)) m (stage_config temp),
                  CallUnload m]))"
    using f by (rule analyze_failure_logged)
  show "\<exists>msg s'. generate (logged llm) dumps py_str m temp cv orig (s, []) =
           (Inl (GenerationError msg),
            (s', [CallChat (user_message (build_prompt dumps py_str cv
                              (if orig = [] then original_cv_text cv else orig)))
                    m (stage_config temp),
                  CallUnload m]))"
    using f by (rule generate_failure_logged)
qed

definition refused_response :: LLMResponse where
  "refused_response =
     \<lparr>content = JStr [], model = ''m'', success = False, error = Some ''connection refused''\<rparr>"

theorem failure_unloads_once_witness:
  "chat_fails (reply_service refused_response) \<and>
   analyze (logged (reply_service refused_response)) (\<lambda>_. JSONDecodeError) ''m'' float_0_3
       ''cv'' ((), [])
     = (Inl (AnalysisError ''LLM request failed: connection refused''),
        ((), [CallChat (user_message (analyzer_build_prompt ''cv'')) ''m'' (stage_config float_0_3),
              CallUnload ''m''])) \<and>
   generate (logged (reply_service refused_response)) (\<lambda>_. []) (\<lambda>_. []) ''m'' float_0_2
       CVData_default ''cv'' ((), [])
     = (Inl (GenerationError ''LLM request failed: connection refused''),
        ((), [CallChat (user_message (build_prompt (\<lambda>_. []) (\<lambda>_. []) CVData_default ''cv''))
                ''m'' (stage_config float_0_2),
              CallUnload ''m'']))"
proof -
  have f: "chat_fails (reply_service refused_response)"
    by (simp add: chat_fails_def reply_service_def refused_response_def)
  note t = failure_unloads_once
    [where llm = "reply_service refused_response" and loads = "\<lambda>_. JSONDecodeError" and m = "''m''"
       and temp = float_0_3 and cv_text = "''cv''" and s = "()" and dumps = "\<lambda>_. []"
       and py_str = "\<lambda>_. []" and cv = CVData_default and orig = "''cv''"]
  note u = failure_unloads_once
    [where llm = "reply_service refused_response" and loads = "\<lambda>_. JSONDecodeError" and m = "''m''"
       and temp = float_0_2 and cv_text = "''cv''" and s = "()" and dumps = "\<lambda>_. []"
       and py_str = "\<lambda>_. []" and cv = CVData_default and orig = "''cv''"]
  from t f obtain msg s' where
    a: "analyze (logged (reply_service refused_response)) (\<lambda>_. JSONDecodeError) ''m'' float_0_3 ''cv'' ((), [])
     = (Inl (AnalysisError msg),
        (s', [CallChat (user_message (analyzer_build_prompt ''cv'')) ''m'' (stage_config float_0_3),
              CallUnload ''m'']))"
    by blast
  have "fst (analyze (logged (reply_service refused_response)) (\<lambda>_. JSONDecodeError) ''m'' float_0_3 ''cv'' ((), []))
     = Inl (AnalysisError ''LLM request failed: connection refused'')"
    by (simp add: analyze_def logged_def reply_service_def refused_response_def Let_def
        format_optional_def)
  with a have a': "msg = ''LLM request failed: connection refused''" by simp
  from u f obtain msg2 s2 where
    g: "generate (logged (reply_service refused_response)) (\<lambda>_. []) (\<lambda>_. []) ''m'' float_0_2
       CVData_default ''cv'' ((), [])
     = (Inl (GenerationError msg2),
        (s2, [CallChat (user_message (build_prompt (\<lambda>_. []) (\<lambda>_. []) CVData_default ''cv''))
                ''m'' (stage_config float_0_2),
              CallUnload ''m'']))"
    by auto
  have "fst (generate (logged (reply_service refused_response)) (\<lambda>_. []) (\<lambda>_. []) ''m'' float_0_2
       CVData_default ''cv'' ((), []))
     = Inl (GenerationError ''LLM request failed: connection refused'')"
    by (simp add: generate_def logged_def reply_service_def refused_response_def Let_def
        format_optional_def)
  with g have g': "msg2 = ''LLM request failed: connection refused''" by simp
  from f a a' g g' show ?thesis by simp
qed

lemma raw_fallback_cv_fields:
  "raw_analysis (raw_fallback_cv reply cv_text) = JStr reply"
  "experience (raw_fallback_cv reply cv_text) = []"
  "projects (raw_fallback_cv reply cv_text) = []"
  "education (raw_fallback_cv reply cv_text) = []"
  "skills (raw_fallback_cv reply cv_text) = Skills_default"
  "certifications (raw_fallback_cv reply cv_text) = JArr []"
  "languages_spoken (raw_fallback_cv reply cv_text) = JArr []"
  by (simp_all add: raw_fallback_cv_def CVData_default_def)

text \<open>
  Claim C6, as the code has it. Over a successful response text: when no dict or an
  empty dict is extracted, the record holds the response text as raw analysis (not
  empty exactly when the response text is not empty) and every structured list is
  empty; when a non-empty dict is extracted, the raw analysis of the record is what the
  dict holds under \<open>"raw_analysis"\<close>, \<open>None\<close> when it has no such key.
\<close>

theorem analyze_raw_or_structured:
  "chat_returns llm resp \<and> success resp \<and> content resp = JStr reply \<longrightarrow>
     ((extract_json loads reply = Inr None \<or> extract_json loads reply = Inr (Some [])) \<longrightarrow>
        (\<exists>cv. fst (analyze llm loads m temp cv_text st) = Inr cv \<and>
              raw_analysis cv = JStr reply \<and> truthy (raw_analysis cv) = (reply \<noteq> []) \<and>
              experience cv = [] \<and> projects cv = [] \<and> education cv = [] \<and>
              skills cv = Skills_default \<and> certifications cv = JArr [] \<and>
              languages_spoken cv = JArr [])) \<and>
     (\<forall>d cv. extract_json loads reply = Inr (Some d) \<and> d \<noteq> [] \<and>
             fst (analyze llm loads m temp cv_text st) = Inr cv \<longrightarrow>
             raw_analysis cv = dict_get d ''raw_analysis'' JNull)"
proof (intro impI conjI allI)
  assume a: "chat_returns llm resp \<and> success resp \<and> content resp = JStr reply"
  then have a1: "chat_returns llm resp" and a2: "success resp" and a3: "content resp = JStr reply"
    by simp_all
  note an = analyze_success[OF a1 a2 a3, of loads m temp cv_text st]
  {
    assume "extract_json loads reply = Inr None \<or> extract_json loads reply = Inr (Some [])"
    then have "fst (analyze llm loads m temp cv_text st) = Inr (raw_fallback_cv reply cv_text)"
      using an by auto
    then show "\<exists>cv. fst (analyze llm loads m temp cv_text st) = Inr cv \<and>
              raw_analysis cv = JStr reply \<and> truthy (raw_analysis cv) = (reply \<noteq> []) \<and>
              experience cv = [] \<and> projects cv = [] \<and> education cv = [] \<and>
              skills cv = Skills_default \<and> certifications cv = JArr [] \<and>
              languages_spoken cv = JArr []"
      by (simp add: raw_fallback_cv_fields)
  }
  fix d cv
  assume b: "extract_json loads reply = Inr (Some d) \<and> d \<noteq> [] \<and>
             fst (analyze llm loads m temp cv_text st) = Inr cv"
  with an have "from_dict d cv_text = Inr cv" by simp
  then show "raw_analysis cv = dict_get d ''raw_analysis'' JNull"
    by (rule from_dict_fields(1))
qed

definition both_reply :: string where
  \<open>both_reply = ''{"raw_analysis": "x", "certifications": ["a"]}''\<close>

definition both_loads :: json_loads where
  "both_loads =
     loads_table [(both_reply, [(''raw_analysis'', JStr ''x''), (''certifications'', JArr [JStr ''a''])])]"

theorem analyze_raw_or_structured_witness:
  "chat_returns (reply_service (ok_response ''no json here'')) (ok_response ''no json here'') \<and>
   success (ok_response ''no json here'') \<and>
   content (ok_response ''no json here'') = JStr ''no json here'' \<and>
   extract_json (\<lambda>_. JSONDecodeError) ''no json here'' = Inr None \<and>
   (\<exists>cv. fst (analyze (reply_service (ok_response ''no json here'')) (\<lambda>_. JSONDecodeError) ''m''
               float_0_3 ''cv'' ()) = Inr cv \<and>
         raw_analysis cv = JStr ''no json here'' \<and> truthy (raw_analysis cv) \<and>
         experience cv = [] \<and> projects cv = [] \<and> education cv = [] \<and>
         skills cv = Skills_default \<and> certifications cv = JArr [] \<and>
         languages_spoken cv = JArr [])"
proof -
  let ?resp = "ok_response ''no json here''"
  have h: "chat_returns (reply_service ?resp) ?resp" "success ?resp"
    "content ?resp = JStr ''no json here''"
    by (simp_all add: chat_returns_reply ok_response_def)
  have e: "extract_json (\<lambda>_. JSONDecodeError) ''no json here'' = Inr None" by code_simp
  note t = analyze_raw_or_structured
    [where llm = "reply_service ?resp" and resp = ?resp and reply = "''no json here''"
       and loads = "\<lambda>_. JSONDecodeError" and m = "''m''" and temp = float_0_3 and cv_text = "''cv''"
       and st = "()"]
  from t h e have "\<exists>cv. fst (analyze (reply_service ?resp) (\<lambda>_. JSONDecodeError) ''m''
               float_0_3 ''cv'' ()) = Inr cv \<and>
         raw_analysis cv = JStr ''no json here'' \<and> truthy (raw_analysis cv) \<and>
         experience cv = [] \<and> projects cv = [] \<and> education cv = [] \<and>
         skills cv = Skills_default \<and> certifications cv = JArr [] \<and>
         languages_spoken cv = JArr []"
    by simp
  with h e show ?thesis by blast
qed

text \<open>
  Claim C6 as stated fails: an empty response text gives an empty raw analysis although
  parsing failed, and a parsed object that carries a \<open>"raw_analysis"\<close> key gives a record
  with both a raw analysis and a populated structured list.
\<close>

theorem analyze_invariant_counterexample:
  "success (ok_response []) \<and> extract_json (\<lambda>_. JSONDecodeError) [] = Inr None \<and>
   fst (analyze (reply_service (ok_response [])) (\<lambda>_. JSONDecodeError) ''m'' float_0_3 ''cv'' ())
     = Inr (raw_fallback_cv [] ''cv'') \<and>
   raw_analysis (raw_fallback_cv [] ''cv'') = JStr [] \<and>
   \<not> truthy (raw_analysis (raw_fallback_cv [] ''cv'')) \<and>
   fst (analyze (reply_service (ok_response both_reply)) both_loads ''m'' float_0_3 ''cv'' ())
     = Inr (CVData_default\<lparr>certifications := JArr [JStr ''a''], raw_analysis := JStr ''x'',
                            original_cv_text := ''cv''\<rparr>) \<and>
   truthy (raw_analysis (CVData_default\<lparr>certifications := JArr [JStr ''a''],
                            raw_analysis := JStr ''x'', original_cv_text := ''cv''\<rparr>)) \<and>
   certifications (CVData_default\<lparr>certifications := JArr [JStr ''a''],
                            raw_analysis := JStr ''x'', original_cv_text := ''cv''\<rparr>)
     = JArr [JStr ''a'']"
proof -
  have 1: "success (ok_response [])" by (simp add: ok_response_def)
  have 2: "extract_json (\<lambda>_. JSONDecodeError) [] = Inr None" by code_simp
  have 3: "fst (analyze (reply_service (ok_response [])) (\<lambda>_. JSONDecodeError) ''m'' float_0_3 ''cv'' ())
     = Inr (raw_fallback_cv [] ''cv'')"
    using analyze_success[OF chat_returns_reply, of "ok_response []" "[]" "\<lambda>_. JSONDecodeError"] 2
    by (simp add: ok_response_def)
  have 4: "raw_analysis (raw_fallback_cv [] ''cv'') = JStr []"
    "\<not> truthy (raw_analysis (raw_fallback_cv [] ''cv''))"
    by (simp_all add: raw_fallback_cv_fields)
  have e: "extract_json both_loads both_reply
     = Inr (Some [(''raw_analysis'', JStr ''x''), (''certifications'', JArr [JStr ''a''])])"
    by code_simp
  have f: "from_dict [(''raw_analysis'', JStr ''x''), (''certifications'', JArr [JStr ''a''])] ''cv''
     = Inr (CVData_default\<lparr>certifications := JArr [JStr ''a''], raw_analysis := JStr ''x'',
                            original_cv_text := ''cv''\<rparr>)"
    by (simp add: from_dict_def section_step_def dict_get_def CVData_default_def)
  have 5: "fst (analyze (reply_service (ok_response both_reply)) both_loads ''m'' float_0_3 ''cv'' ())
     = Inr (CVData_default\<lparr>certifications := JArr [JStr ''a''], raw_analysis := JStr ''x'',
                            original_cv_text := ''cv''\<rparr>)"
    using analyze_success[OF chat_returns_reply, of "ok_response both_reply" both_reply both_loads]
      e f by (simp add: ok_response_def)
  have 6: "truthy (raw_analysis (CVData_default\<lparr>certifications := JArr [JStr ''a''],
                            raw_analysis := JStr ''x'', original_cv_text := ''cv''\<rparr>))"
    "certifications (CVData_default\<lparr>certifications := JArr [JStr ''a''],
                            raw_analysis := JStr ''x'', original_cv_text := ''cv''\<rparr>)
     = JArr [JStr ''a'']"
    by simp_all
  from 1 2 3 4 5 6 show ?thesis by blast
qed




section \<open>OllamaService (src/services/ollama_service.py)\<close>

text \<open>The requests the service sends to the \<open>ollama\<close> client library and the library's
  answer: a response object, read with \<open>.get\<close> like a dict, or an exception, kept as the
  text \<open>str(e)\<close> gives. The library is a parameter \<open>rt\<close> on a state \<open>'w\<close> of the
  runtime.\<close>

record ollama_options =
  opt_temperature :: pyfloat
  num_ctx :: int
  num_predict :: int

datatype ollama_request =
    GenerateRequest string string "ollama_options option" "int option"
  | ChatRequest string "message list" ollama_options
  | ListRequest

type_synonym 'w ollama_runtime = "ollama_request \<Rightarrow> 'w \<Rightarrow> (string + json) \<times> 'w"

text \<open>The name Python prints for the type of a value.\<close>

definition py_type_name :: "json \<Rightarrow> string" where
  "py_type_name v =
     (case v of
        JNull \<Rightarrow> ''NoneType'' | JBool b \<Rightarrow> ''bool'' | JInt i \<Rightarrow> ''int''
      | JFloat f \<Rightarrow> ''float'' | JStr s \<Rightarrow> ''str'' | JArr xs \<Rightarrow> ''list''
      | JObj d \<Rightarrow> ''dict'')"

text \<open>\<open>v.get(key, default)\<close> on any value: only a dict has the method, on another value
  the call raises \<open>AttributeError\<close>, here its message.\<close>

definition py_get :: "json \<Rightarrow> string \<Rightarrow> json \<Rightarrow> string + json" where
  "py_get v k dflt =
     (case v of
        JObj d \<Rightarrow> Inr (dict_get d k dflt)
      | _ \<Rightarrow> Inl ([CHR 0x27] @ py_type_name v @ [CHR 0x27] @ '' object has no attribute '' @
                 [CHR 0x27] @ ''get'' @ [CHR 0x27]))"

definition options_of :: "LLMConfig \<Rightarrow> ollama_options" where
  "options_of config =
     \<lparr>opt_temperature = temperature config, num_ctx = context_window config,
      num_predict = max_tokens config\<rparr>"

text \<open>The result of the \<open>except Exception as e\<close> branches.\<close>

definition failure_response :: "string \<Rightarrow> string \<Rightarrow> LLMResponse" where
  "failure_response model_name e =
     \<lparr>content = JStr [], model = model_name, success = False, error = Some e\<rparr>"

definition ollama_generate ::
  "'w ollama_runtime \<Rightarrow> string \<Rightarrow> string \<Rightarrow> LLMConfig option \<Rightarrow> 'w \<Rightarrow> LLMResponse \<times> 'w" where
  "ollama_generate rt prompt model_name config0 w =
     (let config = (case config0 of None \<Rightarrow> LLMConfig_default | Some c \<Rightarrow> c)
      in case rt (GenerateRequest model_name prompt (Some (options_of config)) None) w of
           (Inl e, w1) \<Rightarrow> (failure_response model_name e, w1)
         | (Inr response, w1) \<Rightarrow>
             (case py_get response ''response'' (JStr []) of
                Inl e \<Rightarrow> (failure_response model_name e, w1)
              | Inr c \<Rightarrow>
                  (\<lparr>content = c, model = model_name, success = True, error = None\<rparr>, w1)))"

definition ollama_chat ::
  "'w ollama_runtime \<Rightarrow> message list \<Rightarrow> string \<Rightarrow> LLMConfig option \<Rightarrow> 'w
     \<Rightarrow> LLMResponse \<times> 'w" where
  "ollama_chat rt messages model_name config0 w =
     (let config = (case config0 of None \<Rightarrow> LLMConfig_default | Some c \<Rightarrow> c)
      in case rt (ChatRequest model_name messages (options_of config)) w of
           (Inl e, w1) \<Rightarrow> (failure_response model_name e, w1)
         | (Inr response, w1) \<Rightarrow>
             (case py_get response ''message'' (JObj []) of
                Inl e \<Rightarrow> (failure_response model_name e, w1)
              | Inr msg \<Rightarrow>
                  (case py_get msg ''content'' (JStr []) of
                     Inl e \<Rightarrow> (failure_response model_name e, w1)
                   | Inr c \<Rightarrow>
                       (\<lparr>content = c, model = model_name, success = True, error = None\<rparr>,
                        w1))))"

text \<open>\<open>unload_model\<close>: a generate request with an empty prompt and \<open>keep_alive=0\<close>, then a
  pause of two seconds, which the model leaves out.\<close>

definition ollama_unload_model :: "'w ollama_runtime \<Rightarrow> string \<Rightarrow> 'w \<Rightarrow> bool \<times> 'w" where
  "ollama_unload_model rt model_name w =
     (case rt (GenerateRequest model_name [] None (Some 0)) w of
        (Inl e, w1) \<Rightarrow> (False, w1)
      | (Inr response, w1) \<Rightarrow> (True, w1))"

definition ollama_is_available :: "'w ollama_runtime \<Rightarrow> 'w \<Rightarrow> bool \<times> 'w" where
  "ollama_is_available rt w =
     (case rt ListRequest w of
        (Inl e, w1) \<Rightarrow> (False, w1)
      | (Inr response, w1) \<Rightarrow> (True, w1))"

text \<open>The service as an \<open>ILLMService\<close>.\<close>

definition OllamaService :: "'w ollama_runtime \<Rightarrow> 'w llm_service" where
  "OllamaService rt =
     \<lparr>chat = (\<lambda>messages model_name config. ollama_chat rt messages model_name (Some config)),
      unload_model = ollama_unload_model rt\<rparr>"

text \<open>A result is a success without an error, or a failure with an error text and an
  empty content.\<close>

definition well_formed_result :: "LLMResponse \<Rightarrow> bool" where
  "well_formed_result r =
     ((success r \<and> error r = None) \<or>
      (\<not> success r \<and> (\<exists>e. error r = Some e) \<and> content r = JStr []))"

lemma well_formed_failure: "well_formed_result (failure_response m e)"
  by (simp add: well_formed_result_def failure_response_def)

text \<open>
  Claim C8. Whatever the runtime does, return a response or raise an exception,
  \<open>generate\<close> and \<open>chat\<close> return an \<open>LLMResponse\<close> (they are total functions: nothing is
  raised to the caller) that is a success without an error or a failure with an error
  text and an empty content, never both; an exception of the runtime becomes the failure
  result that carries its text.
\<close>

theorem ollama_never_raises:
  "well_formed_result (fst (ollama_generate rt prompt m config w)) \<and>
   well_formed_result (fst (ollama_chat rt messages m config w)) \<and>
   \<not> (success (fst (ollama_generate rt prompt m config w)) \<and>
      error (fst (ollama_generate rt prompt m config w)) \<noteq> None) \<and>
   \<not> (success (fst (ollama_chat rt messages m config w)) \<and>
      error (fst (ollama_chat rt messages m config w)) \<noteq> None) \<and>
   (\<forall>e. fst (rt (GenerateRequest m prompt
                 (Some (options_of (case config of None \<Rightarrow> LLMConfig_default | Some c \<Rightarrow> c)))
                 None) w) = Inl e \<longrightarrow>
        fst (ollama_generate rt prompt m config w) = failure_response m e) \<and>
   (\<forall>e. fst (rt (ChatRequest m messages
                 (options_of (case config of None \<Rightarrow> LLMConfig_default | Some c \<Rightarrow> c))) w)
          = Inl e \<longrightarrow>
        fst (ollama_chat rt messages m config w) = failure_response m e)"
proof -
  have g: "well_formed_result (fst (ollama_generate rt prompt m config w))"
    by (auto simp: ollama_generate_def Let_def well_formed_failure
        split: prod.splits sum.splits)
       (simp add: well_formed_result_def)
  have c: "well_formed_result (fst (ollama_chat rt messages m config w))"
    by (auto simp: ollama_chat_def Let_def well_formed_failure
        split: prod.splits sum.splits)
       (simp add: well_formed_result_def)
  have x: "\<not> (success r \<and> error r \<noteq> None)" if "well_formed_result r" for r
    using that by (auto simp: well_formed_result_def)
  have ge: "\<forall>e. fst (rt (GenerateRequest m prompt
                 (Some (options_of (case config of None \<Rightarrow> LLMConfig_default | Some c \<Rightarrow> c)))
                 None) w) = Inl e \<longrightarrow>
        fst (ollama_generate rt prompt m config w) = failure_response m e"
    by (auto simp: ollama_generate_def Let_def split: prod.splits sum.splits)
  have ce: "\<forall>e. fst (rt (ChatRequest m messages
                 (options_of (case config of None \<Rightarrow> LLMConfig_default | Some c \<Rightarrow> c))) w)
          = Inl e \<longrightarrow>
        fst (ollama_chat rt messages m config w) = failure_response m e"
    by (auto simp: ollama_chat_def Let_def split: prod.splits sum.splits)
  from g c x[OF g] x[OF c] ge ce show ?thesis by blast
qed

text \<open>Three runtimes: one that refuses the connection, one that answers, and one whose
  answer has no dict under \<open>message\<close>.\<close>

definition refusing_runtime :: "unit ollama_runtime" where
  "refusing_runtime req w = (Inl ''connection refused'', w)"

definition answering_runtime :: "unit ollama_runtime" where
  "answering_runtime req w =
     (Inr (JObj [(''message'', JObj [(''role'', JStr ''assistant''), (''content'', JStr ''hello'')]),
                 (''response'', JStr ''hello'')]), w)"

definition odd_runtime :: "unit ollama_runtime" where
  "odd_runtime req w = (Inr (JObj [(''message'', JNull)]), w)"

theorem ollama_never_raises_witness:
  "fst (refusing_runtime (ChatRequest ''m'' [] (options_of LLMConfig_default)) ()) =
     Inl ''connection refused'' \<and>
   fst (ollama_chat refusing_runtime [] ''m'' None ()) =
     \<lparr>content = JStr [], model = ''m'', success = False, error = Some ''connection refused''\<rparr> \<and>
   fst (ollama_generate refusing_runtime ''hi'' ''m'' None ()) =
     \<lparr>content = JStr [], model = ''m'', success = False, error = Some ''connection refused''\<rparr> \<and>
   fst (ollama_chat answering_runtime [] ''m'' None ()) =
     \<lparr>content = JStr ''hello'', model = ''m'', success = True, error = None\<rparr> \<and>
   \<not> success (fst (ollama_chat odd_runtime [] ''m'' None ())) \<and>
   well_formed_result (fst (ollama_chat odd_runtime [] ''m'' None ()))"
proof -
  note t = ollama_never_raises
    [where rt = refusing_runtime and prompt = "''hi''" and m = "''m''" and config = None
       and w = "()" and messages = "[]"]
  have r: "fst (refusing_runtime (ChatRequest ''m'' [] (options_of LLMConfig_default)) ()) =
     Inl ''connection refused''"
    "fst (refusing_runtime (GenerateRequest ''m'' ''hi'' (Some (options_of LLMConfig_default)) None) ())
      = Inl ''connection refused''"
    by (simp_all add: refusing_runtime_def)
  from t r have 1: "fst (ollama_chat refusing_runtime [] ''m'' None ()) =
     \<lparr>content = JStr [], model = ''m'', success = False, error = Some ''connection refused''\<rparr>"
    by (simp add: failure_response_def)
  from t r have 2: "fst (ollama_generate refusing_runtime ''hi'' ''m'' None ()) =
     \<lparr>content = JStr [], model = ''m'', success = False, error = Some ''connection refused''\<rparr>"
    by (simp add: failure_response_def)
  have 3: "fst (ollama_chat answering_runtime [] ''m'' None ()) =
     \<lparr>content = JStr ''hello'', model = ''m'', success = True, error = None\<rparr>"
    by (simp add: ollama_chat_def answering_runtime_def py_get_def dict_get_def)
  have 4: "\<not> success (fst (ollama_chat odd_runtime [] ''m'' None ()))"
    by (simp add: ollama_chat_def odd_runtime_def py_get_def dict_get_def failure_response_def)
  have 5: "well_formed_result (fst (ollama_chat odd_runtime [] ''m'' None ()))"
    using ollama_never_raises[where rt = odd_runtime and messages = "[]" and m = "''m''"
        and config = None and w = "()" and prompt = "[]"]
    by blast
  from r(1) 1 2 3 4 5 show ?thesis by blast
qed

section \<open>CVPortfolioPipeline (src/pipeline/cv_portfolio_pipeline.py)\<close>

text \<open>The collaborators the pipeline reaches through its container, on a state \<open>'w\<close> of
  the world. A path is its text; an exception is the text \<open>str(e)\<close> gives. The extractor,
  the analyzer, the generator and the file service may raise; the dialogs of the UI
  service return (a path or nothing, or nothing). \<open>clock_now\<close> is the timestamp
  \<open>datetime.now().strftime("%Y%m%d_%H%M%S")\<close>.\<close>

type_synonym path = string
type_synonym exn = string

record 'w pipeline_services =
  ui_select_file :: "string \<Rightarrow> (string \<times> string) list \<Rightarrow> 'w \<Rightarrow> path option \<times> 'w"
  ui_show_success :: "string \<Rightarrow> string \<Rightarrow> 'w \<Rightarrow> 'w"
  ui_show_error :: "string \<Rightarrow> string \<Rightarrow> 'w \<Rightarrow> 'w"
  extractor_extract :: "path \<Rightarrow> 'w \<Rightarrow> (exn + string) \<times> 'w"
  analyzer_analyze :: "string \<Rightarrow> 'w \<Rightarrow> (exn + CVData option) \<times> 'w"
  generator_generate :: "CVData \<Rightarrow> 'w \<Rightarrow> (exn + string) \<times> 'w"
  file_save :: "string \<Rightarrow> string \<Rightarrow> string \<Rightarrow> 'w \<Rightarrow> (exn + path) \<times> 'w"
  file_output_directory :: path
  clock_now :: "'w \<Rightarrow> string"

text \<open>Step 1.\<close>

definition select_pdf :: "'w pipeline_services \<Rightarrow> 'w \<Rightarrow> path option \<times> 'w" where
  "select_pdf svc w =
     ui_select_file svc ''Select Your CV (PDF)''
       [(''PDF files'', ''*.pdf''), (''All files'', ''*.*'')] w"

text \<open>Step 2: a text that is empty after trimming gives \<open>None\<close>; otherwise the raw text is
  saved.\<close>

definition extract_text ::
  "'w pipeline_services \<Rightarrow> path \<Rightarrow> 'w \<Rightarrow> (exn + string option) \<times> 'w" where
  "extract_text svc pdf_path w =
     (case extractor_extract svc pdf_path w of
        (Inl e, w1) \<Rightarrow> (Inl e, w1)
      | (Inr cv_text, w1) \<Rightarrow>
          if strip cv_text = [] then (Inr None, w1)
          else
            (case file_save svc cv_text ''cv_raw_text'' ''txt'' w1 of
               (Inl e, w2) \<Rightarrow> (Inl e, w2)
             | (Inr saved, w2) \<Rightarrow> (Inr (Some cv_text), w2)))"

text \<open>Step 3: the record is saved as pretty-printed JSON (\<open>dumps\<close>).\<close>

definition analyze_step ::
  "'w pipeline_services \<Rightarrow> (json \<Rightarrow> string) \<Rightarrow> string \<Rightarrow> 'w
     \<Rightarrow> (exn + CVData option) \<times> 'w" where
  "analyze_step svc dumps cv_text w =
     (case analyzer_analyze svc cv_text w of
        (Inl e, w1) \<Rightarrow> (Inl e, w1)
      | (Inr None, w1) \<Rightarrow> (Inr None, w1)
      | (Inr (Some cv_data), w1) \<Rightarrow>
          (case file_save svc (dumps (JObj (to_dict cv_data))) ''cv_extracted_data'' ''json'' w1 of
             (Inl e, w2) \<Rightarrow> (Inl e, w2)
           | (Inr json_output, w2) \<Rightarrow> (Inr (Some cv_data), w2)))"

text \<open>Step 4.\<close>

definition generate_step ::
  "'w pipeline_services \<Rightarrow> CVData \<Rightarrow> 'w \<Rightarrow> (exn + string option) \<times> 'w" where
  "generate_step svc cv_data w =
     (case generator_generate svc cv_data w of
        (Inl e, w1) \<Rightarrow> (Inl e, w1)
      | (Inr html_content, w1) \<Rightarrow>
          if html_content = [] then (Inr None, w1) else (Inr (Some html_content), w1))"

text \<open>Step 5: the page is saved under a timestamped name and as \<open>index\<close>. \<open>stem\<close> is
  \<open>Path.stem\<close>.\<close>

definition save_outputs ::
  "'w pipeline_services \<Rightarrow> (path \<Rightarrow> string) \<Rightarrow> string \<Rightarrow> path \<Rightarrow> 'w \<Rightarrow> (exn + path) \<times> 'w" where
  "save_outputs svc stem html_content pdf_path w =
     (let timestamp = clock_now svc w;
          base_name = stem pdf_path
      in case file_save svc html_content (base_name @ ''_portfolio_'' @ timestamp) ''html'' w of
           (Inl e, w1) \<Rightarrow> (Inl e, w1)
         | (Inr output_path, w1) \<Rightarrow>
             (case file_save svc html_content ''index'' ''html'' w1 of
                (Inl e, w2) \<Rightarrow> (Inl e, w2)
              | (Inr index_saved, w2) \<Rightarrow> (Inr output_path, w2)))"

text \<open>The success dialog. Its title ends in a character outside the range of the model
  and is a parameter.\<close>

definition print_success :: "'w pipeline_services \<Rightarrow> string \<Rightarrow> path \<Rightarrow> 'w \<Rightarrow> 'w" where
  "print_success svc success_title output_path w =
     ui_show_success svc success_title
       (''Your portfolio has been generated!\<newline>\<newline>'' @
        ''Main file:\<newline>'' @ output_path @ ''\<newline>\<newline>'' @
        ''Quick access:\<newline>'' @ file_output_directory svc @ ''/index.html'') w"

definition handle_error :: "'w pipeline_services \<Rightarrow> exn \<Rightarrow> 'w \<Rightarrow> 'w" where
  "handle_error svc e w =
     ui_show_error svc ''Pipeline Error'' (''An error occurred:\<newline>\<newline>'' @ e) w"

text \<open>\<open>run\<close>: every \<open>Inl\<close> of a step is the exception the \<open>try\<close> block catches.\<close>

definition run ::
  "'w pipeline_services \<Rightarrow> (path \<Rightarrow> string) \<Rightarrow> (json \<Rightarrow> string) \<Rightarrow> string \<Rightarrow> 'w
     \<Rightarrow> path option \<times> 'w" where
  "run svc stem dumps success_title w =
     (case select_pdf svc w of
        (None, w1) \<Rightarrow> (None, w1)
      | (Some pdf_path, w1) \<Rightarrow>
     (case extract_text svc pdf_path w1 of
        (Inl e, w2) \<Rightarrow> (None, handle_error svc e w2)
      | (Inr None, w2) \<Rightarrow> (None, w2)
      | (Inr (Some cv_text), w2) \<Rightarrow>
     (case analyze_step svc dumps cv_text w2 of
        (Inl e, w3) \<Rightarrow> (None, handle_error svc e w3)
      | (Inr None, w3) \<Rightarrow> (None, w3)
      | (Inr (Some cv_data), w3) \<Rightarrow>
     (case generate_step svc cv_data w3 of
        (Inl e, w4) \<Rightarrow> (None, handle_error svc e w4)
      | (Inr None, w4) \<Rightarrow> (None, w4)
      | (Inr (Some html_content), w4) \<Rightarrow>
     (case save_outputs svc stem html_content pdf_path w4 of
        (Inl e, w5) \<Rightarrow> (None, handle_error svc e w5)
      | (Inr output_path, w5) \<Rightarrow>
          (Some output_path, print_success svc success_title output_path w5))))))"

subsection \<open>The record of a run\<close>

text \<open>The calls the collaborators receive, each with what it returned or raised, and the
  services that record them in the state.\<close>

datatype event =
    EvSelect "path option"
  | EvExtract path "exn + string"
  | EvAnalyze string "exn + CVData option"
  | EvGenerate CVData "exn + string"
  | EvSave string string string "exn + path"
  | EvShowSuccess string string
  | EvShowError string string

definition logged_services :: "'w pipeline_services \<Rightarrow> ('w \<times> event list) pipeline_services" where
  "logged_services svc =
     \<lparr>ui_select_file = (\<lambda>title types wl.
        (fst (ui_select_file svc title types (fst wl)),
         (snd (ui_select_file svc title types (fst wl)),
          snd wl @ [EvSelect (fst (ui_select_file svc title types (fst wl)))]))),
      ui_show_success = (\<lambda>title msg wl.
        (ui_show_success svc title msg (fst wl), snd wl @ [EvShowSuccess title msg])),
      ui_show_error = (\<lambda>title msg wl.
        (ui_show_error svc title msg (fst wl), snd wl @ [EvShowError title msg])),
      extractor_extract = (\<lambda>p wl.
        (fst (extractor_extract svc p (fst wl)),
         (snd (extractor_extract svc p (fst wl)),
          snd wl @ [EvExtract p (fst (extractor_extract svc p (fst wl)))]))),
      analyzer_analyze = (\<lambda>t wl.
        (fst (analyzer_analyze svc t (fst wl)),
         (snd (analyzer_analyze svc t (fst wl)),
          snd wl @ [EvAnalyze t (fst (analyzer_analyze svc t (fst wl)))]))),
      generator_generate = (\<lambda>cv wl.
        (fst (generator_generate svc cv (fst wl)),
         (snd (generator_generate svc cv (fst wl)),
          snd wl @ [EvGenerate cv (fst (generator_generate svc cv (fst wl)))]))),
      file_save = (\<lambda>c n x wl.
        (fst (file_save svc c n x (fst wl)),
         (snd (file_save svc c n x (fst wl)),
          snd wl @ [EvSave c n x (fst (file_save svc c n x (fst wl)))]))),
      file_output_directory = file_output_directory svc,
      clock_now = (\<lambda>wl. clock_now svc (fst wl))\<rparr>"

datatype event_kind =
  KSelect | KExtract | KAnalyze | KGenerate | KSave | KShowSuccess | KShowError

fun kind :: "event \<Rightarrow> event_kind" where
  "kind (EvSelect r) = KSelect"
| "kind (EvExtract p r) = KExtract"
| "kind (EvAnalyze t r) = KAnalyze"
| "kind (EvGenerate cv r) = KGenerate"
| "kind (EvSave c n x r) = KSave"
| "kind (EvShowSuccess t m) = KShowSuccess"
| "kind (EvShowError t m) = KShowError"

text \<open>The exception a recorded call raised, if it raised one.\<close>

fun raised :: "event \<Rightarrow> exn option" where
  "raised (EvExtract p (Inl e)) = Some e"
| "raised (EvAnalyze t (Inl e)) = Some e"
| "raised (EvGenerate cv (Inl e)) = Some e"
| "raised (EvSave c n x (Inl e)) = Some e"
| "raised ev = None"

text \<open>The calls of a run in which every step succeeds.\<close>

definition happy_path :: "event_kind list" where
  "happy_path =
     [KSelect, KExtract, KSave, KAnalyze, KSave, KGenerate, KSave, KSave, KShowSuccess]"

definition run_log ::
  "'w pipeline_services \<Rightarrow> (path \<Rightarrow> string) \<Rightarrow> (json \<Rightarrow> string) \<Rightarrow> string \<Rightarrow> 'w
     \<Rightarrow> event list" where
  "run_log svc stem dumps success_title w =
     snd (snd (run (logged_services svc) stem dumps success_title (w, [])))"

definition run_result ::
  "'w pipeline_services \<Rightarrow> (path \<Rightarrow> string) \<Rightarrow> (json \<Rightarrow> string) \<Rightarrow> string \<Rightarrow> 'w
     \<Rightarrow> path option" where
  "run_result svc stem dumps success_title w =
     fst (run (logged_services svc) stem dumps success_title (w, []))"

lemmas run_unfold =
  run_log_def run_result_def run_def select_pdf_def extract_text_def analyze_step_def
  generate_step_def save_outputs_def print_success_def handle_error_def logged_services_def
  Let_def happy_path_def

lemma run_raise_result:
  "(\<exists>ev\<in>set (run_log svc stem dumps title w). raised ev \<noteq> None) \<longrightarrow>
     run_result svc stem dumps title w = None"
  by (simp add: run_unfold split: option.splits sum.splits)

lemma run_raise_last:
  "(\<exists>ev\<in>set (run_log svc stem dumps title w). raised ev \<noteq> None) \<longrightarrow>
     (\<exists>e. raised (last (butlast (run_log svc stem dumps title w))) = Some e \<and>
          last (run_log svc stem dumps title w) =
            EvShowError ''Pipeline Error'' (''An error occurred:\<newline>\<newline>'' @ e))"
  by (simp add: run_unfold split: option.splits sum.splits)

lemma run_linear:
  "prefix (map kind (run_log svc stem dumps title w)) happy_path \<or>
   (prefix (butlast (map kind (run_log svc stem dumps title w))) happy_path \<and>
    last (map kind (run_log svc stem dumps title w)) = KShowError)"
  by (simp add: run_unfold split: prod.splits option.splits sum.splits)

lemma run_no_raise:
  "(\<forall>ev\<in>set (run_log svc stem dumps title w). raised ev = None) \<longrightarrow>
   (\<forall>ev\<in>set (run_log svc stem dumps title w). kind ev \<noteq> KShowError)"
  by (simp add: run_unfold split: option.splits sum.splits)

lemma run_no_selection:
  "fst (select_pdf svc w) = None \<longrightarrow>
     run_log svc stem dumps title w = [EvSelect None] \<and>
     run_result svc stem dumps title w = None"
  by (simp add: run_unfold split: option.splits sum.splits)

lemma run_logged_same:
  "fst (run svc stem dumps title w) = run_result svc stem dumps title w"
  by (simp add: run_unfold split: prod.splits option.splits sum.splits)

lemma run_success:
  "run_result svc stem dumps title w \<noteq> None \<longrightarrow>
     map kind (run_log svc stem dumps title w) = happy_path"
  by (simp add: run_unfold split: option.splits sum.splits)

lemma run_log_nonempty: "run_log svc stem dumps title w \<noteq> []"
  by (simp add: run_unfold split: option.splits sum.splits)

lemma once_at_end:
  assumes "prefix (butlast ks) hp" "K \<notin> set hp" "ks \<noteq> []" "last ks = K"
  shows "length (filter (\<lambda>k. k = K) ks) = 1"
proof -
  from assms(1,2) have "K \<notin> set (butlast ks)"
    by (meson set_mono_prefix subsetD)
  then have "filter (\<lambda>k. k = K) (butlast ks) = []"
    by (auto simp: filter_empty_conv)
  moreover from assms(3,4) have "butlast ks @ [K] = ks"
    using append_butlast_last_id[of ks] by simp
  then have "filter (\<lambda>k. k = K) ks = filter (\<lambda>k. k = K) (butlast ks) @ [K]"
    using filter_append[of "\<lambda>k. k = K" "butlast ks" "[K]"] by simp
  ultimately have "filter (\<lambda>k. k = K) ks = [K]" by simp
  then show ?thesis by simp
qed

lemma run_raise_count:
  assumes "\<exists>ev\<in>set (run_log svc stem dumps title w). raised ev \<noteq> None"
  shows "length (filter (\<lambda>ev. kind ev = KShowError) (run_log svc stem dumps title w)) = 1"
proof -
  let ?log = "run_log svc stem dumps title w"
  let ?ks = "map kind ?log"
  from run_raise_last[of svc stem dumps title w] assms obtain e where
    l: "last ?log = EvShowError ''Pipeline Error'' (''An error occurred:\<newline>\<newline>'' @ e)"
    by blast
  have ne: "?ks \<noteq> []" using run_log_nonempty by simp
  then have lk: "last ?ks = KShowError" using l by (simp add: last_map)
  have nh: "KShowError \<notin> set happy_path" by (simp add: happy_path_def)
  have "prefix (butlast ?ks) happy_path"
  proof (rule ccontr)
    assume n: "\<not> prefix (butlast ?ks) happy_path"
    with run_linear[of svc stem dumps title w] have "prefix ?ks happy_path" by blast
    then have "set ?ks \<subseteq> set happy_path" by (rule set_mono_prefix)
    moreover have "last ?ks \<in> set ?ks" using ne by (rule last_in_set)
    ultimately show False using lk nh by auto
  qed
  from once_at_end[OF this nh ne lk]
  have "length (filter (\<lambda>k. k = KShowError) ?ks) = 1" .
  then show ?thesis by (simp add: filter_map comp_def)
qed

text \<open>
  Claim C9. \<open>run\<close> is a total function that returns a path or \<open>None\<close>: no exception of
  a stage reaches its caller. The calls of a run are an initial part of the calls of a
  fully successful run, each stage called at most once and none again, followed by at
  most one error notification. When the file selection gives no path the run ends
  there: no other call, no notification, result \<open>None\<close>. When no call raises there is no
  error notification. When a call raises, it is the last call of a stage, the error
  notification with the text of the exception follows it as the only one, and the
  result is \<open>None\<close>. Recording the calls does not change the result.
\<close>

theorem run_single_pass:
  "fst (run svc stem dumps title w) = run_result svc stem dumps title w \<and>
   (prefix (map kind (run_log svc stem dumps title w)) happy_path \<or>
    (prefix (butlast (map kind (run_log svc stem dumps title w))) happy_path \<and>
     last (map kind (run_log svc stem dumps title w)) = KShowError)) \<and>
   (fst (select_pdf svc w) = None \<longrightarrow>
      run_log svc stem dumps title w = [EvSelect None] \<and>
      run_result svc stem dumps title w = None) \<and>
   ((\<forall>ev\<in>set (run_log svc stem dumps title w). raised ev = None) \<longrightarrow>
      (\<forall>ev\<in>set (run_log svc stem dumps title w). kind ev \<noteq> KShowError)) \<and>
   ((\<exists>ev\<in>set (run_log svc stem dumps title w). raised ev \<noteq> None) \<longrightarrow>
      run_result svc stem dumps title w = None \<and>
      (\<exists>e. raised (last (butlast (run_log svc stem dumps title w))) = Some e \<and>
           last (run_log svc stem dumps title w) =
             EvShowError ''Pipeline Error'' (''An error occurred:\<newline>\<newline>'' @ e)) \<and>
      length (filter (\<lambda>ev. kind ev = KShowError) (run_log svc stem dumps title w)) = 1) \<and>
   (run_result svc stem dumps title w \<noteq> None \<longrightarrow>
      map kind (run_log svc stem dumps title w) = happy_path)"
proof (intro conjI)
  show "fst (run svc stem dumps title w) = run_result svc stem dumps title w"
    by (rule run_logged_same)
  show "prefix (map kind (run_log svc stem dumps title w)) happy_path \<or>
    (prefix (butlast (map kind (run_log svc stem dumps title w))) happy_path \<and>
     last (map kind (run_log svc stem dumps title w)) = KShowError)"
    by (rule run_linear)
  show "fst (select_pdf svc w) = None \<longrightarrow>
      run_log svc stem dumps title w = [EvSelect None] \<and>
      run_result svc stem dumps title w = None"
    by (rule run_no_selection)
  show "(\<forall>ev\<in>set (run_log svc stem dumps title w). raised ev = None) \<longrightarrow>
      (\<forall>ev\<in>set (run_log svc stem dumps title w). kind ev \<noteq> KShowError)"
    by (rule run_no_raise)
  show "(\<exists>ev\<in>set (run_log svc stem dumps title w). raised ev \<noteq> None) \<longrightarrow>
      run_result svc stem dumps title w = None \<and>
      (\<exists>e. raised (last (butlast (run_log svc stem dumps title w))) = Some e \<and>
           last (run_log svc stem dumps title w) =
             EvShowError ''Pipeline Error'' (''An error occurred:\<newline>\<newline>'' @ e)) \<and>
      length (filter (\<lambda>ev. kind ev = KShowError) (run_log svc stem dumps title w)) = 1"
    using run_raise_result[of svc stem dumps title w] run_raise_last[of svc stem dumps title w]
      run_raise_count[of svc stem dumps title w]
    by blast
  show "run_result svc stem dumps title w \<noteq> None \<longrightarrow>
      map kind (run_log svc stem dumps title w) = happy_path"
    by (rule run_success)
qed

text \<open>Two worlds: one in which the selected file is missing, one in which the user
  closes the dialog.\<close>

definition missing_file_services :: "unit pipeline_services" where
  "missing_file_services =
     \<lparr>ui_select_file = (\<lambda>title types w. (Some ''cv.pdf'', w)),
      ui_show_success = (\<lambda>title msg w. w),
      ui_show_error = (\<lambda>title msg w. w),
      extractor_extract = (\<lambda>p w. (Inl (''PDF file not found: '' @ p), w)),
      analyzer_analyze = (\<lambda>t w. (Inr None, w)),
      generator_generate = (\<lambda>cv w. (Inr [], w)),
      file_save = (\<lambda>c n x w. (Inr (''outputs/'' @ n @ ''.'' @ x), w)),
      file_output_directory = ''outputs'',
      clock_now = (\<lambda>w. ''20240101_000000'')\<rparr>"

definition cancelled_services :: "unit pipeline_services" where
  "cancelled_services = missing_file_services\<lparr>ui_select_file := (\<lambda>title types w. (None, w))\<rparr>"

theorem run_single_pass_witness:
  "run_log missing_file_services id (\<lambda>_. []) ''Success!'' () =
     [EvSelect (Some ''cv.pdf''),
      EvExtract ''cv.pdf'' (Inl ''PDF file not found: cv.pdf''),
      EvShowError ''Pipeline Error'' ''An error occurred:\<newline>\<newline>PDF file not found: cv.pdf''] \<and>
   fst (run missing_file_services id (\<lambda>_. []) ''Success!'' ()) = None \<and>
   fst (select_pdf cancelled_services ()) = None \<and>
   run_log cancelled_services id (\<lambda>_. []) ''Success!'' () = [EvSelect None] \<and>
   fst (run cancelled_services id (\<lambda>_. []) ''Success!'' ()) = None"
proof -
  note t = run_single_pass
    [where svc = missing_file_services and stem = id and dumps = "\<lambda>_. []"
       and title = "''Success!''" and w = "()"]
  note u = run_single_pass
    [where svc = cancelled_services and stem = id and dumps = "\<lambda>_. []"
       and title = "''Success!''" and w = "()"]
  have l: "run_log missing_file_services id (\<lambda>_. []) ''Success!'' () =
     [EvSelect (Some ''cv.pdf''),
      EvExtract ''cv.pdf'' (Inl ''PDF file not found: cv.pdf''),
      EvShowError ''Pipeline Error'' ''An error occurred:\<newline>\<newline>PDF file not found: cv.pdf'']"
    by (simp add: run_unfold missing_file_services_def)
  then have "\<exists>ev\<in>set (run_log missing_file_services id (\<lambda>_. []) ''Success!'' ()). raised ev \<noteq> None"
    by simp
  with t have r: "fst (run missing_file_services id (\<lambda>_. []) ''Success!'' ()) = None"
    by simp
  have s: "fst (select_pdf cancelled_services ()) = None"
    by (simp add: select_pdf_def cancelled_services_def missing_file_services_def)
  with u have c: "run_log cancelled_services id (\<lambda>_. []) ''Success!'' () = [EvSelect None]"
    "fst (run cancelled_services id (\<lambda>_. []) ''Success!'' ()) = None"
    by simp_all
  from l r s c show ?thesis by blast
qed

end
